theory Spec2Isabelle
  imports Main
begin

section \<open>Strings\<close>

text \<open>
  Python strings are modelled as \<open>string\<close>: a list of characters with the code points
  below 256. The character classes below are Python's on these code points: white space
  (\<open>str.isspace\<close>, \<open>\\s\<close>), decimal digits (\<open>\\d\<close>) and \<open>str.lower\<close>. Code points from
  256 on are not represented.
\<close>

definition isspace :: "char \<Rightarrow> bool" where
  "isspace c = (c \<in> set [CHR 0x09, CHR 0x0A, CHR 0x0B, CHR 0x0C, CHR 0x0D,
                          CHR 0x1C, CHR 0x1D, CHR 0x1E, CHR 0x1F, CHR 0x20,
                          CHR 0x85, CHR 0xA0])"

definition isdigit :: "char \<Rightarrow> bool" where
  "isdigit c = (c \<in> set ''0123456789'')"

definition lower_char :: "char \<Rightarrow> char" where
  \<comment> \<open>the letters \<open>A\<close> to \<open>Z\<close>, and the capital letters from \<open>0xC0\<close> to \<open>0xDE\<close> (the
     multiplication sign \<open>0xD7\<close> is not a letter)\<close>
  "lower_char c =
     (case map_of (zip ''ABCDEFGHIJKLMNOPQRSTUVWXYZ'' ''abcdefghijklmnopqrstuvwxyz'') c of
        Some l \<Rightarrow> l
      | None \<Rightarrow>
          (let n = (of_char c :: nat)
           in if 192 \<le> n \<and> n \<le> 222 \<and> n \<noteq> 215 then char_of (n + 32) else c))"

definition lower :: "string \<Rightarrow> string" where
  "lower s = map lower_char s"

definition strip :: "string \<Rightarrow> string" where
  "strip s = rev (dropWhile isspace (rev (dropWhile isspace s)))"

definition rstrip :: "string \<Rightarrow> string \<Rightarrow> string" where
  \<comment> \<open>\<open>s.rstrip(chars)\<close>\<close>
  "rstrip s chars = rev (dropWhile (\<lambda>c. c \<in> set chars) (rev s))"

definition startswith :: "string \<Rightarrow> string \<Rightarrow> bool" where
  \<comment> \<open>\<open>s.startswith(p)\<close>\<close>
  "startswith s p = (take (length p) s = p)"

definition endswith :: "string \<Rightarrow> string \<Rightarrow> bool" where
  \<comment> \<open>\<open>s.endswith(p)\<close>\<close>
  "endswith s p = (length p \<le> length s \<and> drop (length s - length p) s = p)"

fun str_in :: "string \<Rightarrow> string \<Rightarrow> bool" where
  \<comment> \<open>\<open>sub in s\<close>\<close>
  "str_in sub [] = (sub = [])"
| "str_in sub (c # cs) = (startswith (c # cs) sub \<or> str_in sub cs)"

definition split_first :: "string \<Rightarrow> char \<Rightarrow> string" where
  \<comment> \<open>\<open>s.split(sep)[0]\<close> for a one-character separator\<close>
  "split_first s sep = takeWhile (\<lambda>c. c \<noteq> sep) s"

definition digit_value :: "char \<Rightarrow> int" where
  "digit_value c = int (of_char c) - 48"

definition int_of_digits :: "string \<Rightarrow> int" where
  \<comment> \<open>the number that a string of decimal digits denotes\<close>
  "int_of_digits s = foldl (\<lambda>n c. 10 * n + digit_value c) 0 s"

fun re_search_initiative_id :: "string \<Rightarrow> string option" where
  \<comment> \<open>\<open>re.search(r'/initiatives/(\\d+)', s)\<close>: group 1 of the leftmost match\<close>
  "re_search_initiative_id [] = None"
| "re_search_initiative_id (c # cs) =
     (if startswith (c # cs) ''/initiatives/''
         \<and> takeWhile isdigit (drop (length ''/initiatives/'') (c # cs)) \<noteq> []
      then Some (takeWhile isdigit (drop (length ''/initiatives/'') (c # cs)))
      else re_search_initiative_id cs)"

fun re_search_count :: "string \<Rightarrow> string option" where
  \<comment> \<open>\<open>re.search(r':\\s*(\\d+)', s)\<close>: group 1 of the leftmost match\<close>
  "re_search_count [] = None"
| "re_search_count (c # cs) =
     (if c = CHR '':'' \<and> takeWhile isdigit (dropWhile isspace cs) \<noteq> []
      then Some (takeWhile isdigit (dropWhile isspace cs))
      else re_search_count cs)"

section \<open>Insertion-ordered dictionaries\<close>

text \<open>
  A Python \<open>dict\<close> keeps its keys in the order of their first insertion; assigning to a
  key that is already present replaces the value and leaves the position unchanged.
\<close>

type_synonym ('k, 'v) dict = "('k \<times> 'v) list"

definition dict_set :: "('k, 'v) dict \<Rightarrow> 'k \<Rightarrow> 'v \<Rightarrow> ('k, 'v) dict" where
  \<comment> \<open>\<open>d[k] = v\<close>\<close>
  "dict_set d k v =
     (if k \<in> fst ` set d then map (\<lambda>(k', v'). if k' = k then (k', v) else (k', v')) d
      else d @ [(k, v)])"

definition dict_values :: "('k, 'v) dict \<Rightarrow> 'v list" where
  \<comment> \<open>\<open>list(d.values())\<close>\<close>
  "dict_values d = map snd d"

definition key_dict :: "string list \<Rightarrow> (string, string) dict" where
  \<comment> \<open>the dictionary that maps each of the given keys, in this order, to itself\<close>
  "key_dict ks = map (\<lambda>u. (u, u)) ks"

section \<open>The consultation record\<close>

record ConsultationData =
  initiative_id :: string
  initiative_name :: string
  initiative_url :: string
  consultation_url :: string
  topic :: "string option"
  consultation_period :: "string option"
  total_feedback :: "int option"
  has_summary_report :: bool
  summary_report_url :: "string option"
  has_contributions_zip :: bool
  contributions_zip_url :: "string option"
  has_documents_annexed :: bool
  documents_annexed_url :: "string option"
  scrape_timestamp :: string
  scrape_status :: string
  error_message :: "string option"

section \<open>The page capability\<close>

text \<open>
  The browser is an external capability. It is modelled as a record of operations over a
  state \<open>'w\<close> of the outside world and a type \<open>'e\<close> of element handles. Every awaited
  call returns its outcome and the next state; an outcome is \<open>Inl e\<close> when the call raises
  the exception \<open>e\<close>. The failures of the capability are instances of Python's
  \<open>Exception\<close> (Playwright's \<open>Error\<close> and \<open>TimeoutError\<close>); \<open>str_of e\<close> is \<open>str(e)\<close>.

  \<open>issued P w\<close> lists, in order, the URLs of the requests the page issued during the await
  that led to the state \<open>w\<close>: they are what a listener registered with
  \<open>page.on("request", ...)\<close> is called with during that await. \<open>next_element_sibling\<close> is
  \<open>evaluate_handle('node => node.nextElementSibling')\<close> followed by \<open>as_element()\<close>.
  \<open>launch\<close> stands for starting Playwright, the browser, the context and the page;
  \<open>now\<close> for \<open>datetime.now().isoformat()\<close>. Timeouts are part of the capability's
  behaviour. Logging has no effect on what the functions return and is left out.
\<close>

datatype error = Exception string

fun str_of :: "error \<Rightarrow> string" where
  "str_of (Exception m) = m"

type_synonym 'a result = "error + 'a"

definition int_of_str :: "string \<Rightarrow> int result" where
  \<comment> \<open>\<open>int(s)\<close> for a non-empty string of decimal digits: CPython raises \<open>ValueError\<close>
     when the string has more than 4300 digits\<close>
  "int_of_str s =
     (if 4300 < length s
      then Inl (Exception ''Exceeds the limit (4300 digits) for integer string conversion'')
      else Inr (int_of_digits s))"

record ('w, 'e) page =
  launch :: "bool \<Rightarrow> int \<Rightarrow> 'w \<Rightarrow> unit result \<times> 'w"
  browser_close :: "'w \<Rightarrow> unit result \<times> 'w"
  goto :: "string \<Rightarrow> 'w \<Rightarrow> unit result \<times> 'w"
  wait_for_load_state :: "string \<Rightarrow> 'w \<Rightarrow> unit result \<times> 'w"
  wait_for_selector :: "string \<Rightarrow> 'w \<Rightarrow> unit result \<times> 'w"
  query_selector :: "string \<Rightarrow> 'w \<Rightarrow> 'e option result \<times> 'w"
  query_selector_all :: "string \<Rightarrow> 'w \<Rightarrow> 'e list result \<times> 'w"
  elem_query_selector :: "'e \<Rightarrow> string \<Rightarrow> 'w \<Rightarrow> 'e option result \<times> 'w"
  inner_text :: "'e \<Rightarrow> 'w \<Rightarrow> string result \<times> 'w"
  get_attribute :: "'e \<Rightarrow> string \<Rightarrow> 'w \<Rightarrow> string option result \<times> 'w"
  next_element_sibling :: "'e \<Rightarrow> 'w \<Rightarrow> 'e option result \<times> 'w"
  click :: "'e \<Rightarrow> 'w \<Rightarrow> unit result \<times> 'w"
  sleep :: "'w \<Rightarrow> 'w"
  issued :: "'w \<Rightarrow> string list"
  now :: "'w \<Rightarrow> string"

definition wait_for_page_load :: "('w, 'e) page \<Rightarrow> 'w \<Rightarrow> unit result \<times> 'w" where
  "wait_for_page_load P w =
     (case wait_for_load_state P ''networkidle'' w of
        (Inr u, w1) \<Rightarrow> (Inr (), w1)
      | (Inl e, w1) \<Rightarrow> wait_for_load_state P ''domcontentloaded'' w1)"

section \<open>Field extraction on the consultation page\<close>

text \<open>
  Each block of \<open>extract_consultation_data\<close> is a \<open>try\<close> whose handler only logs: an
  exception leaves the block with the record as it is at that point. Each loop returns the
  exception that ended it, the block drops it.
\<close>

fun topic_loop ::
  "('w, 'e) page \<Rightarrow> 'e list \<Rightarrow> ConsultationData \<Rightarrow> 'w \<Rightarrow> unit result \<times> ConsultationData \<times> 'w"
where
  "topic_loop P [] data w = (Inr (), data, w)"
| "topic_loop P (dt # dts) data w =
     (case inner_text P dt w of
        (Inl e, w1) \<Rightarrow> (Inl e, data, w1)
      | (Inr text, w1) \<Rightarrow>
          if str_in ''topic'' (lower text) then
            (case next_element_sibling P dt w1 of
               (Inl e, w2) \<Rightarrow> (Inl e, data, w2)
             | (Inr None, w2) \<Rightarrow> topic_loop P dts data w2
             | (Inr (Some dd_element), w2) \<Rightarrow>
                 (case inner_text P dd_element w2 of
                    (Inl e, w3) \<Rightarrow> (Inl e, data, w3)
                  | (Inr topic_text, w3) \<Rightarrow>
                      (Inr (),
                       if topic_text \<noteq> [] then data\<lparr>topic := Some (strip topic_text)\<rparr> else data,
                       w3)))
          else topic_loop P dts data w1)"

definition extract_topic ::
  "('w, 'e) page \<Rightarrow> ConsultationData \<Rightarrow> 'w \<Rightarrow> ConsultationData \<times> 'w"
where
  "extract_topic P data w =
     (case query_selector_all P ''dt.ecl-description-list__term'' w of
        (Inl e, w1) \<Rightarrow> (data, w1)
      | (Inr topic_elements, w1) \<Rightarrow>
          (case topic_loop P topic_elements data w1 of (r, data1, w2) \<Rightarrow> (data1, w2)))"

definition extract_period ::
  "('w, 'e) page \<Rightarrow> ConsultationData \<Rightarrow> 'w \<Rightarrow> ConsultationData \<times> 'w"
where
  "extract_period P data w =
     (case query_selector P ''span.ecl-u-type-capitalize'' w of
        (Inl e, w1) \<Rightarrow> (data, w1)
      | (Inr None, w1) \<Rightarrow> (data, w1)
      | (Inr (Some period_element), w1) \<Rightarrow>
          (case inner_text P period_element w1 of
             (Inl e, w2) \<Rightarrow> (data, w2)
           | (Inr text, w2) \<Rightarrow> (data\<lparr>consultation_period := Some (strip text)\<rparr>, w2)))"

fun feedback_loop ::
  "('w, 'e) page \<Rightarrow> 'e list \<Rightarrow> ConsultationData \<Rightarrow> 'w \<Rightarrow> unit result \<times> ConsultationData \<times> 'w"
where
  "feedback_loop P [] data w = (Inr (), data, w)"
| "feedback_loop P (h4 # h4s) data w =
     (case inner_text P h4 w of
        (Inl e, w1) \<Rightarrow> (Inl e, data, w1)
      | (Inr feedback_text, w1) \<Rightarrow>
          if str_in ''feedback'' (lower feedback_text) \<and> str_in ''received'' (lower feedback_text)
          then
            (case re_search_count feedback_text of
               Some g \<Rightarrow>
                 (case int_of_str g of
                    Inl e \<Rightarrow> (Inl e, data, w1)
                  | Inr n \<Rightarrow> (Inr (), data\<lparr>total_feedback := Some n\<rparr>, w1))
             | None \<Rightarrow> (Inr (), data, w1))
          else feedback_loop P h4s data w1)"

definition extract_feedback ::
  "('w, 'e) page \<Rightarrow> ConsultationData \<Rightarrow> 'w \<Rightarrow> ConsultationData \<times> 'w"
where
  "extract_feedback P data w =
     (case query_selector_all P ''h4'' w of
        (Inl e, w1) \<Rightarrow> (data, w1)
      | (Inr h4_elements, w1) \<Rightarrow>
          (case feedback_loop P h4_elements data w1 of (r, data1, w2) \<Rightarrow> (data1, w2)))"

section \<open>Download links\<close>

text \<open>
  The download URLs are read from the requests the page issues when a file link is
  clicked. \<open>handle_request\<close> is the listener; \<open>listening\<close> runs one awaited call while the
  listener is registered (between \<open>page.on\<close> and \<open>page.remove_listener\<close>): the requests
  issued during the call are passed to the listener in order, whatever the call's outcome.
\<close>

definition handle_request :: "(string, string) dict \<Rightarrow> string \<Rightarrow> (string, string) dict" where
  "handle_request captured_urls url =
     (if str_in ''/api/download/'' url then dict_set captured_urls url url else captured_urls)"

definition listening ::
  "('w, 'e) page \<Rightarrow> (string, string) dict \<Rightarrow> 'a \<times> 'w \<Rightarrow> 'a \<times> (string, string) dict \<times> 'w"
where
  "listening P captured_urls rw =
     (case rw of (r, w1) \<Rightarrow> (r, foldl handle_request captured_urls (issued P w1), w1))"

definition classify_file ::
  "bool \<Rightarrow> bool \<Rightarrow> string \<Rightarrow> string \<Rightarrow> ConsultationData \<Rightarrow> ConsultationData"
where
  \<comment> \<open>lines 324 to 337\<close>
  "classify_file has_summary_section has_contributions_section title_lower latest_url data =
     (if has_contributions_section \<and> str_in ''contribution'' title_lower
         \<and> \<not> str_in ''annex'' title_lower
      then data\<lparr>has_contributions_zip := True, contributions_zip_url := Some latest_url\<rparr>
      else if has_contributions_section \<and> str_in ''document'' title_lower
         \<and> str_in ''annex'' title_lower
      then data\<lparr>has_documents_annexed := True, documents_annexed_url := Some latest_url\<rparr>
      else if has_summary_section
      then data\<lparr>has_summary_report := True, summary_report_url := Some latest_url\<rparr>
      else data)"

definition latest_captured :: "(string, string) dict \<Rightarrow> string option" where
  \<comment> \<open>lines 320 and 321: \<open>list(captured_urls.values())[-1]\<close> under \<open>if captured_urls\<close>\<close>
  "latest_captured captured_urls =
     (if captured_urls \<noteq> [] then Some (last (dict_values captured_urls)) else None)"

definition record_file ::
  "bool \<Rightarrow> bool \<Rightarrow> string \<Rightarrow> (string, string) dict \<Rightarrow> ConsultationData \<Rightarrow> ConsultationData"
where
  \<comment> \<open>lines 320 to 337\<close>
  "record_file has_summary_section has_contributions_section title_lower captured_urls data =
     (case latest_captured captured_urls of
        Some latest_url \<Rightarrow>
          classify_file has_summary_section has_contributions_section title_lower latest_url data
      | None \<Rightarrow> data)"

fun h3_loop ::
  "('w, 'e) page \<Rightarrow> 'e list \<Rightarrow> string list \<Rightarrow> 'w \<Rightarrow> string list result \<times> 'w"
where
  "h3_loop P [] h3_texts w = (Inr h3_texts, w)"
| "h3_loop P (h3 # h3s) h3_texts w =
     (case inner_text P h3 w of
        (Inl e, w1) \<Rightarrow> (Inl e, w1)
      | (Inr text, w1) \<Rightarrow> h3_loop P h3s (h3_texts @ [strip text]) w1)"

fun files_loop ::
  "('w, 'e) page \<Rightarrow> bool \<Rightarrow> bool \<Rightarrow> 'e list \<Rightarrow> (string, string) dict \<Rightarrow> ConsultationData \<Rightarrow> 'w
    \<Rightarrow> unit result \<times> (string, string) dict \<times> ConsultationData \<times> 'w"
where
  "files_loop P has_summary_section has_contributions_section [] captured_urls data w =
     (Inr (), captured_urls, data, w)"
| "files_loop P has_summary_section has_contributions_section (file_elem # rest) captured_urls data w =
     (case listening P captured_urls (elem_query_selector P file_elem ''.ecl-file__title'' w) of
        (Inl e, c1, w1) \<Rightarrow> (Inl e, c1, data, w1)
      | (Inr None, c1, w1) \<Rightarrow>
          files_loop P has_summary_section has_contributions_section rest c1 data w1
      | (Inr (Some title_elem), c1, w1) \<Rightarrow>
          (case listening P c1 (inner_text P title_elem w1) of
             (Inl e, c2, w2) \<Rightarrow> (Inl e, c2, data, w2)
           | (Inr text, c2, w2) \<Rightarrow>
               (let title = strip text; title_lower = lower title in
                case listening P c2 (elem_query_selector P file_elem ''a'' w2) of
                  (Inl e, c3, w3) \<Rightarrow> (Inl e, c3, data, w3)
                | (Inr None, c3, w3) \<Rightarrow>
                    files_loop P has_summary_section has_contributions_section rest c3 data w3
                | (Inr (Some download_link), c3, w3) \<Rightarrow>
                    (case listening P c3 (click P download_link w3) of
                       (Inl click_error, c4, w4) \<Rightarrow>
                         files_loop P has_summary_section has_contributions_section rest c4 data w4
                     | (Inr u, c4, w4) \<Rightarrow>
                         (case listening P c4 ((), sleep P w4) of
                            (u', c5, w5) \<Rightarrow>
                              files_loop P has_summary_section has_contributions_section rest c5
                                (record_file has_summary_section has_contributions_section
                                   title_lower c5 data)
                                w5)))))"

definition extract_outcome ::
  "('w, 'e) page \<Rightarrow> ConsultationData \<Rightarrow> 'w \<Rightarrow> ConsultationData \<times> 'w"
where
  "extract_outcome P data w =
     (case query_selector_all P ''h3'' w of
        (Inl e, w1) \<Rightarrow> (data, w1)
      | (Inr h3_elements, w1) \<Rightarrow>
          (case h3_loop P h3_elements [] w1 of
             (Inl e, w2) \<Rightarrow> (data, w2)
           | (Inr h3_texts, w2) \<Rightarrow>
               (let has_summary_section = (''Summary report'' \<in> set h3_texts);
                    has_contributions_section =
                      (''Contributions to the consultation'' \<in> set h3_texts)
                in case query_selector_all P ''ecl-file'' w2 of
                     (Inl e, w3) \<Rightarrow> (data, w3)
                   | (Inr file_elements, w3) \<Rightarrow>
                       (case files_loop P has_summary_section has_contributions_section
                               file_elements [] data w3 of
                          (r, captured_urls, data1, w4) \<Rightarrow> (data1, w4)))))"

definition extract_consultation_data ::
  "('w, 'e) page \<Rightarrow> ConsultationData \<Rightarrow> 'w \<Rightarrow> unit result \<times> ConsultationData \<times> 'w"
where
  "extract_consultation_data P data w =
     (case extract_topic P data w of
        (data1, w1) \<Rightarrow>
          (case extract_period P data1 w1 of
             (data2, w2) \<Rightarrow>
               (case extract_feedback P data2 w2 of
                  (data3, w3) \<Rightarrow>
                    (case extract_outcome P data3 w3 of
                       (data4, w4) \<Rightarrow> (Inr (), data4, w4)))))"

section \<open>The initiative extractor\<close>

definition initial_data :: "string \<Rightarrow> string \<Rightarrow> ConsultationData" where
  \<comment> \<open>lines 164 to 181\<close>
  "initial_data url timestamp =
     \<lparr>initiative_id = [],
      initiative_name = [],
      initiative_url = url,
      consultation_url = [],
      topic = None,
      consultation_period = None,
      total_feedback = None,
      has_summary_report = False,
      summary_report_url = None,
      has_contributions_zip = False,
      contributions_zip_url = None,
      has_documents_annexed = False,
      documents_annexed_url = None,
      scrape_timestamp = timestamp,
      scrape_status = ''pending'',
      error_message = None\<rparr>"

definition extract_initiative_name ::
  "('w, 'e) page \<Rightarrow> ConsultationData \<Rightarrow> 'w \<Rightarrow> ConsultationData \<times> 'w"
where
  \<comment> \<open>lines 195 to 200\<close>
  "extract_initiative_name P data w =
     (case query_selector P ''h1, .ecl-page-header__title'' w of
        (Inl e, w1) \<Rightarrow> (data, w1)
      | (Inr None, w1) \<Rightarrow> (data, w1)
      | (Inr (Some name_element), w1) \<Rightarrow>
          (case inner_text P name_element w1 of
             (Inl e, w2) \<Rightarrow> (data, w2)
           | (Inr text, w2) \<Rightarrow> (data\<lparr>initiative_name := strip text\<rparr>, w2)))"

definition construct_consultation_link :: "string \<Rightarrow> string option" where
  \<comment> \<open>lines 203 to 212; \<open>None\<close> is Python's \<open>None\<close>, which is kept when the construction raises\<close>
  "construct_consultation_link url =
     (let base = rstrip url ''/'';
          base = (if endswith base ''_en'' then take (length base - 3) base else base)
      in Some (base @ ''/public-consultation_en''))"

definition scrape_consultation_from_link ::
  "('w, 'e) page \<Rightarrow> string option \<Rightarrow> ConsultationData \<Rightarrow> 'w
    \<Rightarrow> unit result \<times> ConsultationData \<times> 'w"
where
  \<comment> \<open>lines 214 to 229\<close>
  "scrape_consultation_from_link P consultation_link data w =
     (if consultation_link = None \<or> consultation_link = Some []
      then (Inr (),
            data\<lparr>scrape_status := ''error'',
                 error_message := Some ''Could not find public consultation link''\<rparr>,
            w)
      else
        (let data1 = data\<lparr>consultation_url := the consultation_link\<rparr> in
         case goto P (the consultation_link) w of
           (Inl e, w1) \<Rightarrow> (Inl e, data1, w1)
         | (Inr u, w1) \<Rightarrow>
             (case wait_for_page_load P w1 of
                (Inl e, w2) \<Rightarrow> (Inl e, data1, w2)
              | (Inr u, w2) \<Rightarrow>
                  (case extract_consultation_data P data1 w2 of
                     (Inl e, data2, w3) \<Rightarrow> (Inl e, data2, w3)
                   | (Inr u, data2, w3) \<Rightarrow>
                       (Inr (), data2\<lparr>scrape_status := ''success''\<rparr>, w3)))))"

definition scrape_consultation_body ::
  "('w, 'e) page \<Rightarrow> string \<Rightarrow> ConsultationData \<Rightarrow> 'w \<Rightarrow> unit result \<times> ConsultationData \<times> 'w"
where
  \<comment> \<open>the \<open>try\<close> block, lines 184 to 229\<close>
  "scrape_consultation_body P url data w =
     (let data1 = (case re_search_initiative_id url of
                     Some g \<Rightarrow> data\<lparr>initiative_id := g\<rparr>
                   | None \<Rightarrow> data)
      in case goto P url w of
           (Inl e, w1) \<Rightarrow> (Inl e, data1, w1)
         | (Inr u, w1) \<Rightarrow>
             (case wait_for_page_load P w1 of
                (Inl e, w2) \<Rightarrow> (Inl e, data1, w2)
              | (Inr u, w2) \<Rightarrow>
                  (case extract_initiative_name P data1 w2 of
                     (data2, w3) \<Rightarrow>
                       scrape_consultation_from_link P
                         (construct_consultation_link url) data2 w3)))"

definition scrape_consultation ::
  "('w, 'e) page \<Rightarrow> string \<Rightarrow> 'w \<Rightarrow> ConsultationData result \<times> 'w"
where
  "scrape_consultation P url w =
     (let data = initial_data url (now P w) in
      case scrape_consultation_body P url data w of
        (Inr u, data1, w1) \<Rightarrow> (Inr data1, w1)
      | (Inl e, data1, w1) \<Rightarrow>
          (Inr (data1\<lparr>scrape_status := ''error'', error_message := Some (str_of e)\<rparr>), w1))"


section \<open>The listing walker\<close>

definition SEARCH_URL :: string where
  "SEARCH_URL =
     ''https://ec.europa.eu/info/law/better-regulation/have-your-say/'' @
     ''initiatives_en?frontEndStage=OPC_LAUNCHED&feedbackStatus=CLOSED'' @
     ''&feedbackOpenDateFrom=01-01-2025&feedbackOpenDateClosedBy=31-12-2025''"

definition CARD_LINK :: string where
  \<comment> \<open>the selector \<^verbatim>\<open>a[href*="/initiatives/"]\<close>\<close>
  "CARD_LINK = ''a[href*='' @ [CHR 0x22] @ ''/initiatives/'' @ [CHR 0x22] @ '']''"

definition NEXT_BUTTON :: string where
  \<comment> \<open>the selector
     \<^verbatim>\<open>button[aria-label*="next" i], a[aria-label*="next" i], .ecl-pagination__link--next\<close>\<close>
  "NEXT_BUTTON =
     ''button[aria-label*='' @ [CHR 0x22] @ ''next'' @ [CHR 0x22] @ '' i], '' @
     ''a[aria-label*='' @ [CHR 0x22] @ ''next'' @ [CHR 0x22] @ '' i], '' @
     ''.ecl-pagination__link--next''"

definition full_url_of :: "string \<Rightarrow> string" where
  \<comment> \<open>lines 126 to 132\<close>
  "full_url_of href =
     (let full_url = (if startswith href ''/'' then ''https://ec.europa.eu'' @ href else href)
      in split_first full_url CHR ''?'')"

definition truthy :: "string option \<Rightarrow> bool" where
  \<comment> \<open>the truth value of an optional string: neither \<open>None\<close> nor empty\<close>
  "truthy s = (case s of None \<Rightarrow> False | Some t \<Rightarrow> t \<noteq> [])"

fun cards_loop ::
  "('w, 'e) page \<Rightarrow> 'e list \<Rightarrow> string list \<Rightarrow> 'w \<Rightarrow> unit result \<times> string list \<times> 'w"
where
  \<comment> \<open>lines 120 to 134\<close>
  "cards_loop P [] initiative_urls w = (Inr (), initiative_urls, w)"
| "cards_loop P (card_elem # cards) initiative_urls w =
     (case elem_query_selector P card_elem CARD_LINK w of
        (Inl e, w1) \<Rightarrow> (Inl e, initiative_urls, w1)
      | (Inr None, w1) \<Rightarrow> cards_loop P cards initiative_urls w1
      | (Inr (Some link_element), w1) \<Rightarrow>
          (case get_attribute P link_element ''href'' w1 of
             (Inl e, w2) \<Rightarrow> (Inl e, initiative_urls, w2)
           | (Inr href, w2) \<Rightarrow>
               if truthy href then
                 (let full_url = full_url_of (the href) in
                  cards_loop P cards
                    (if full_url \<in> set initiative_urls then initiative_urls
                     else initiative_urls @ [full_url])
                    w2)
               else cards_loop P cards initiative_urls w2))"

text \<open>
  The \<open>while True\<close> loop over the listing pages ends only when the site stops offering an
  enabled next-page control. It is given fuel, one unit for each listing page read:
  \<open>None\<close> is the loop still running when the fuel is used up.
\<close>

fun pagination_loop ::
  "nat \<Rightarrow> ('w, 'e) page \<Rightarrow> string list \<Rightarrow> 'w \<Rightarrow> (unit result \<times> string list \<times> 'w) option"
where
  \<comment> \<open>lines 112 to 153\<close>
  "pagination_loop 0 P initiative_urls w = None"
| "pagination_loop (Suc fuel) P initiative_urls w =
     (case query_selector_all P ''.ecl-card'' w of
        (Inl e, w1) \<Rightarrow> Some (Inl e, initiative_urls, w1)
      | (Inr cards, w1) \<Rightarrow>
          (case cards_loop P cards initiative_urls w1 of
             (Inl e, urls1, w2) \<Rightarrow> Some (Inl e, urls1, w2)
           | (Inr u, urls1, w2) \<Rightarrow>
               (case query_selector P NEXT_BUTTON w2 of
                  (Inl e, w3) \<Rightarrow> Some (Inl e, urls1, w3)
                | (Inr None, w3) \<Rightarrow> Some (Inr (), urls1, w3)
                | (Inr (Some next_button), w3) \<Rightarrow>
                    (case get_attribute P next_button ''disabled'' w3 of
                       (Inl e, w4) \<Rightarrow> Some (Inl e, urls1, w4)
                     | (Inr is_disabled, w4) \<Rightarrow>
                         if truthy is_disabled then Some (Inr (), urls1, w4)
                         else
                           (case click P next_button w4 of
                              (Inl e, w5) \<Rightarrow> Some (Inr (), urls1, w5)
                            | (Inr u, w5) \<Rightarrow>
                                (case wait_for_page_load P w5 of
                                   (Inl e, w6) \<Rightarrow> Some (Inr (), urls1, w6)
                                 | (Inr u, w6) \<Rightarrow>
                                     pagination_loop fuel P urls1 (sleep P w6)))))))"

definition get_initiative_urls ::
  "nat \<Rightarrow> ('w, 'e) page \<Rightarrow> 'w \<Rightarrow> (string list result \<times> 'w) option"
where
  \<comment> \<open>every exception is caught and logged at lines 155 and 156\<close>
  "get_initiative_urls fuel P w =
     (case goto P SEARCH_URL w of
        (Inl e, w1) \<Rightarrow> Some (Inr [], w1)
      | (Inr u, w1) \<Rightarrow>
          (case wait_for_page_load P w1 of
             (Inl e, w2) \<Rightarrow> Some (Inr [], w2)
           | (Inr u, w2) \<Rightarrow>
               (case wait_for_selector P ''.ecl-card'' w2 of
                  (Inl e, w3) \<Rightarrow> Some (Inr [], w3)
                | (Inr u, w3) \<Rightarrow>
                    (case pagination_loop fuel P [] w3 of
                       None \<Rightarrow> None
                     | Some (r, initiative_urls, w4) \<Rightarrow> Some (Inr initiative_urls, w4)))))"

section \<open>The crawl orchestrator\<close>

record EUConsultationScraper =
  headless :: bool
  slow_mo :: int
  results :: "ConsultationData list"

definition EUConsultationScraper_init :: "bool \<Rightarrow> int \<Rightarrow> EUConsultationScraper" where
  \<comment> \<open>\<open>__init__\<close>\<close>
  "EUConsultationScraper_init h s = \<lparr>headless = h, slow_mo = s, results = []\<rparr>"

fun process_initiatives ::
  "('w, 'e) page \<Rightarrow> string list \<Rightarrow> EUConsultationScraper \<Rightarrow> 'w
    \<Rightarrow> unit result \<times> EUConsultationScraper \<times> 'w"
where
  \<comment> \<open>the \<open>for\<close> loop, lines 83 to 89\<close>
  "process_initiatives P [] self w = (Inr (), self, w)"
| "process_initiatives P (url # rest) self w =
     (case scrape_consultation P url w of
        (Inl e, w1) \<Rightarrow> (Inl e, self, w1)
      | (Inr consultation_data, w1) \<Rightarrow>
          process_initiatives P rest
            (self\<lparr>results := results self @ [consultation_data]\<rparr>) (sleep P w1))"

definition close_and_return ::
  "('w, 'e) page \<Rightarrow> EUConsultationScraper \<Rightarrow> 'w
    \<Rightarrow> ConsultationData list result \<times> EUConsultationScraper \<times> 'w"
where
  \<comment> \<open>lines 93 to 96: an exception of \<open>browser.close()\<close> is raised to the caller\<close>
  "close_and_return P self w =
     (case browser_close P w of
        (Inl e, w1) \<Rightarrow> (Inl e, self, w1)
      | (Inr u, w1) \<Rightarrow> (Inr (results self), self, w1))"

definition scrape_all_consultations ::
  "nat \<Rightarrow> ('w, 'e) page \<Rightarrow> EUConsultationScraper \<Rightarrow> 'w
    \<Rightarrow> (ConsultationData list result \<times> EUConsultationScraper \<times> 'w) option"
where
  \<comment> \<open>an exception in the \<open>try\<close> block is logged at lines 91 and 92; the results gathered
     until then are kept\<close>
  "scrape_all_consultations fuel P self w =
     (case launch P (headless self) (slow_mo self) w of
        (Inl e, w0) \<Rightarrow> Some (Inl e, self, w0)
      | (Inr u, w0) \<Rightarrow>
          (case get_initiative_urls fuel P w0 of
             None \<Rightarrow> None
           | Some (Inl e, w1) \<Rightarrow> Some (close_and_return P self w1)
           | Some (Inr initiative_urls, w1) \<Rightarrow>
               (case process_initiatives P initiative_urls self w1 of
                  (r, self1, w2) \<Rightarrow> Some (close_and_return P self1 w2))))"

section \<open>A static site\<close>

text \<open>
  A page capability over fixed content, on which the definitions above can be evaluated:
  a listing, given as the sequence of its pages, each page the sequence of its cards, each
  card the \<open>href\<close> of its initiative anchor (\<open>None\<close> for a card without one); and the
  documents found at the other URLs. Navigation to an unknown URL raises, every other
  call succeeds. A click on a download link issues one request for the link's target, a
  click on the next-page control (present on every listing page but the last) moves to
  the next listing page.
\<close>

record document =
  doc_heading :: "string option"
  doc_terms :: "(string \<times> string) list"
  doc_period :: "string option"
  doc_h4 :: "string list"
  doc_h3 :: "string list"
  doc_files :: "(string \<times> string) list"

datatype element =
    H string
  | DT string string
  | DD string
  | SPAN string
  | FILE_ENTRY string string
  | FILE_TITLE string
  | DOWNLOAD string
  | CARD "string option"
  | ANCHOR string
  | NEXT

record site_state =
  location :: string
  remaining :: "string option list list"
  pending :: "string list"

definition empty_document :: document where
  "empty_document =
     \<lparr>doc_heading = None, doc_terms = [], doc_period = None, doc_h4 = [], doc_h3 = [],
      doc_files = []\<rparr>"

definition current_document :: "(string \<Rightarrow> document option) \<Rightarrow> site_state \<Rightarrow> document" where
  "current_document docs w = (case docs (location w) of Some d \<Rightarrow> d | None \<Rightarrow> empty_document)"

definition site_goto ::
  "string option list list \<Rightarrow> (string \<Rightarrow> document option) \<Rightarrow> string \<Rightarrow> site_state
    \<Rightarrow> unit result \<times> site_state"
where
  "site_goto listing docs url w =
     (if url = SEARCH_URL then (Inr (), \<lparr>location = url, remaining = listing, pending = []\<rparr>)
      else if docs url = None then (Inl (Exception ''net::ERR_ABORTED''), w\<lparr>pending := []\<rparr>)
      else (Inr (), \<lparr>location = url, remaining = [], pending = []\<rparr>))"

definition site_wait_for_selector :: "string \<Rightarrow> site_state \<Rightarrow> unit result \<times> site_state" where
  "site_wait_for_selector sel w =
     (if sel = ''.ecl-card'' \<and> (remaining w = [] \<or> hd (remaining w) = [])
      then (Inl (Exception ''Timeout 30000ms exceeded.''), w\<lparr>pending := []\<rparr>)
      else (Inr (), w\<lparr>pending := []\<rparr>))"

definition site_query_selector ::
  "(string \<Rightarrow> document option) \<Rightarrow> string \<Rightarrow> site_state \<Rightarrow> element option result \<times> site_state"
where
  "site_query_selector docs sel w =
     (Inr (if sel = NEXT_BUTTON then (if 1 < length (remaining w) then Some NEXT else None)
           else if sel = ''h1, .ecl-page-header__title''
           then map_option H (doc_heading (current_document docs w))
           else if sel = ''span.ecl-u-type-capitalize''
           then map_option SPAN (doc_period (current_document docs w))
           else None),
      w\<lparr>pending := []\<rparr>)"

definition site_query_selector_all ::
  "(string \<Rightarrow> document option) \<Rightarrow> string \<Rightarrow> site_state \<Rightarrow> element list result \<times> site_state"
where
  "site_query_selector_all docs sel w =
     (Inr (if sel = ''.ecl-card''
           then (case remaining w of [] \<Rightarrow> [] | cards # later \<Rightarrow> map CARD cards)
           else if sel = ''dt.ecl-description-list__term''
           then map (\<lambda>(t, d). DT t d) (doc_terms (current_document docs w))
           else if sel = ''h4'' then map H (doc_h4 (current_document docs w))
           else if sel = ''h3'' then map H (doc_h3 (current_document docs w))
           else if sel = ''ecl-file''
           then map (\<lambda>(t, u). FILE_ENTRY t u) (doc_files (current_document docs w))
           else []),
      w\<lparr>pending := []\<rparr>)"

definition site_elem_query_selector ::
  "element \<Rightarrow> string \<Rightarrow> site_state \<Rightarrow> element option result \<times> site_state"
where
  "site_elem_query_selector el sel w =
     (Inr (case el of
             FILE_ENTRY t u \<Rightarrow>
               if sel = ''.ecl-file__title'' then Some (FILE_TITLE t)
               else if sel = ''a'' then Some (DOWNLOAD u)
               else None
           | CARD (Some h) \<Rightarrow> if sel = CARD_LINK then Some (ANCHOR h) else None
           | _ \<Rightarrow> None),
      w\<lparr>pending := []\<rparr>)"

definition site_inner_text :: "element \<Rightarrow> site_state \<Rightarrow> string result \<times> site_state" where
  "site_inner_text el w =
     (Inr (case el of
             H s \<Rightarrow> s | DT t d \<Rightarrow> t | DD s \<Rightarrow> s | SPAN s \<Rightarrow> s | FILE_TITLE t \<Rightarrow> t
           | _ \<Rightarrow> []),
      w\<lparr>pending := []\<rparr>)"

definition site_get_attribute ::
  "element \<Rightarrow> string \<Rightarrow> site_state \<Rightarrow> string option result \<times> site_state"
where
  "site_get_attribute el name w =
     (Inr (case el of
             ANCHOR h \<Rightarrow> if name = ''href'' then Some h else None
           | _ \<Rightarrow> None),
      w\<lparr>pending := []\<rparr>)"

definition site_next_element_sibling ::
  "element \<Rightarrow> site_state \<Rightarrow> element option result \<times> site_state"
where
  "site_next_element_sibling el w =
     (Inr (case el of DT t d \<Rightarrow> Some (DD d) | _ \<Rightarrow> None), w\<lparr>pending := []\<rparr>)"

definition site_click :: "element \<Rightarrow> site_state \<Rightarrow> unit result \<times> site_state" where
  "site_click el w =
     (Inr (),
      case el of
        DOWNLOAD u \<Rightarrow> w\<lparr>pending := [u]\<rparr>
      | NEXT \<Rightarrow> w\<lparr>remaining := tl (remaining w), pending := []\<rparr>
      | _ \<Rightarrow> w\<lparr>pending := []\<rparr>)"

definition static_site ::
  "string option list list \<Rightarrow> (string \<Rightarrow> document option) \<Rightarrow> (site_state, element) page"
where
  "static_site listing docs =
     \<lparr>launch = (\<lambda>h s w. (Inr (), w)),
      browser_close = (\<lambda>w. (Inr (), w)),
      goto = site_goto listing docs,
      wait_for_load_state = (\<lambda>state w. (Inr (), w\<lparr>pending := []\<rparr>)),
      wait_for_selector = site_wait_for_selector,
      query_selector = site_query_selector docs,
      query_selector_all = site_query_selector_all docs,
      elem_query_selector = site_elem_query_selector,
      inner_text = site_inner_text,
      get_attribute = site_get_attribute,
      next_element_sibling = site_next_element_sibling,
      click = site_click,
      sleep = (\<lambda>w. w\<lparr>pending := []\<rparr>),
      issued = pending,
      now = (\<lambda>w. ''2025-06-01T12:00:00'')\<rparr>"

definition start :: site_state where
  "start = \<lparr>location = [], remaining = [], pending = []\<rparr>"

section \<open>Properties of records\<close>

definition artifacts_consistent :: "ConsultationData \<Rightarrow> bool" where
  \<comment> \<open>for each kind of artifact, the URL is set exactly when the flag is true\<close>
  "artifacts_consistent d =
     ((has_summary_report d = (summary_report_url d \<noteq> None))
      \<and> (has_contributions_zip d = (contributions_zip_url d \<noteq> None))
      \<and> (has_documents_annexed d = (documents_annexed_url d \<noteq> None)))"

definition same_identity :: "ConsultationData \<Rightarrow> ConsultationData \<Rightarrow> bool" where
  \<comment> \<open>the identity and provenance fields of two records agree\<close>
  "same_identity d d' =
     (initiative_id d' = initiative_id d \<and> initiative_name d' = initiative_name d
      \<and> initiative_url d' = initiative_url d \<and> consultation_url d' = consultation_url d
      \<and> scrape_timestamp d' = scrape_timestamp d \<and> scrape_status d' = scrape_status d
      \<and> error_message d' = error_message d)"

definition unpopulated :: "ConsultationData \<Rightarrow> bool" where
  \<comment> \<open>the descriptive and artifact fields have their initial values\<close>
  "unpopulated d =
     (topic d = None \<and> consultation_period d = None \<and> total_feedback d = None
      \<and> \<not> has_summary_report d \<and> summary_report_url d = None
      \<and> \<not> has_contributions_zip d \<and> contributions_zip_url d = None
      \<and> \<not> has_documents_annexed d \<and> documents_annexed_url d = None)"

section \<open>The rules as the specification words them\<close>

definition spec_consultation_link :: "string \<Rightarrow> string" where
  \<comment> \<open>strip the locale suffix \<open>_en\<close>, append the path segment \<open>/public-consultation\<close> and the
     locale suffix\<close>
  "spec_consultation_link url =
     (if endswith url ''_en'' then take (length url - 3) url else url)
       @ ''/public-consultation'' @ ''_en''"

datatype artifact_kind = ContributionsZip | DocumentsAnnexed | SummaryReport | Ignored

definition spec_classify :: "bool \<Rightarrow> bool \<Rightarrow> string \<Rightarrow> artifact_kind" where
  \<comment> \<open>the priority rule over the lower-case title and the sections observed\<close>
  "spec_classify summary_observed contributions_observed title =
     (if contributions_observed \<and> str_in ''contribution'' title \<and> \<not> str_in ''annex'' title
      then ContributionsZip
      else if contributions_observed \<and> str_in ''document'' title \<and> str_in ''annex'' title
      then DocumentsAnnexed
      else if summary_observed then SummaryReport
      else Ignored)"

fun record_artifact :: "artifact_kind \<Rightarrow> string \<Rightarrow> ConsultationData \<Rightarrow> ConsultationData" where
  "record_artifact ContributionsZip u d =
     d\<lparr>has_contributions_zip := True, contributions_zip_url := Some u\<rparr>"
| "record_artifact DocumentsAnnexed u d =
     d\<lparr>has_documents_annexed := True, documents_annexed_url := Some u\<rparr>"
| "record_artifact SummaryReport u d =
     d\<lparr>has_summary_report := True, summary_report_url := Some u\<rparr>"
| "record_artifact Ignored u d = d"

definition is_absolute_url :: "string \<Rightarrow> bool" where
  "is_absolute_url u = (startswith u ''http://'' \<or> startswith u ''https://'')"

fun first_occurrences :: "'a list \<Rightarrow> 'a list" where
  \<comment> \<open>the elements of a list without repetition, in the order of their first occurrence\<close>
  "first_occurrences [] = []"
| "first_occurrences (x # xs) = x # filter (\<lambda>y. y \<noteq> x) (first_occurrences xs)"

definition anchors :: "string option list list \<Rightarrow> string list" where
  \<comment> \<open>the non-empty \<open>href\<close>s of a listing, page by page, card by card\<close>
  "anchors listing = [h. Some h \<leftarrow> concat listing, h \<noteq> [] ]"

definition normalized_urls :: "string list \<Rightarrow> bool" where
  \<comment> \<open>no URL twice, and each one the normal form of a non-empty \<open>href\<close>\<close>
  "normalized_urls urls =
     (distinct urls \<and> (\<forall>u\<in>set urls. \<exists>h. h \<noteq> [] \<and> u = full_url_of h))"

section \<open>An example site\<close>

definition example_docs :: "string \<Rightarrow> document option" where
  "example_docs =
     [''https://ec.europa.eu/initiatives/123-Test_en'' \<mapsto>
        empty_document\<lparr>doc_heading := Some ''  Test initiative ''\<rparr>,
      ''https://ec.europa.eu/initiatives/123-Test/public-consultation_en'' \<mapsto>
        \<lparr>doc_heading = Some ''Test'',
         doc_terms = [(''Topic'', ''Energy '')],
         doc_period = Some ''01 January 2025 - 01 March 2025'',
         doc_h4 = [''Total of valid feedback instances received: 244''],
         doc_h3 = [''Contributions to the consultation'', ''Summary report''],
         doc_files =
           [(''Contributions to the consultation'', ''https://ec.europa.eu/api/download/abc''),
            (''Documents annexed to the contributions'', ''https://ec.europa.eu/api/download/def''),
            (''Factual summary'', ''https://ec.europa.eu/api/download/ghi'')]\<rparr>,
      ''https://ec.europa.eu/initiatives/789_en'' \<mapsto>
        empty_document\<lparr>doc_heading := Some ''Late failure''\<rparr>,
      ''https://ec.europa.eu/initiatives/about_en'' \<mapsto> empty_document,
      ''https://ec.europa.eu/initiatives/about/public-consultation_en'' \<mapsto> empty_document]"

definition example_repeat_docs :: "string \<Rightarrow> document option" where
  \<comment> \<open>a consultation page whose third file entry links to the target of the first\<close>
  "example_repeat_docs =
     [''https://ec.europa.eu/initiatives/456_en'' \<mapsto> empty_document,
      ''https://ec.europa.eu/initiatives/456/public-consultation_en'' \<mapsto>
        empty_document
          \<lparr>doc_h3 := [''Contributions to the consultation'', ''Summary report''],
           doc_files :=
             [(''Contributions to the consultation'', ''https://ec.europa.eu/api/download/abc''),
              (''Factual summary'', ''https://ec.europa.eu/api/download/ghi''),
              (''All contributions (archive)'', ''https://ec.europa.eu/api/download/abc'')]\<rparr>]"

definition example_listing :: "string option list list" where
  "example_listing =
     [ [Some ''/initiatives/123-Test_en?page=1'', None],
      [Some ''/initiatives/999_en'', Some ''/initiatives/123-Test_en''] ]"

definition example_success :: ConsultationData where
  "example_success =
     \<lparr>initiative_id = ''123'',
      initiative_name = ''Test initiative'',
      initiative_url = ''https://ec.europa.eu/initiatives/123-Test_en'',
      consultation_url = ''https://ec.europa.eu/initiatives/123-Test/public-consultation_en'',
      topic = Some ''Energy'',
      consultation_period = Some ''01 January 2025 - 01 March 2025'',
      total_feedback = Some 244,
      has_summary_report = True,
      summary_report_url = Some ''https://ec.europa.eu/api/download/ghi'',
      has_contributions_zip = True,
      contributions_zip_url = Some ''https://ec.europa.eu/api/download/abc'',
      has_documents_annexed = True,
      documents_annexed_url = Some ''https://ec.europa.eu/api/download/def'',
      scrape_timestamp = ''2025-06-01T12:00:00'',
      scrape_status = ''success'',
      error_message = None\<rparr>"

definition example_error :: ConsultationData where
  "example_error =
     (initial_data ''https://ec.europa.eu/initiatives/999_en'' ''2025-06-01T12:00:00'')
       \<lparr>initiative_id := ''999'',
        scrape_status := ''error'',
        error_message := Some ''net::ERR_ABORTED''\<rparr>"

definition example_late_error :: ConsultationData where
  \<comment> \<open>the overview page loads, the consultation page does not exist\<close>
  "example_late_error =
     (initial_data ''https://ec.europa.eu/initiatives/789_en'' ''2025-06-01T12:00:00'')
       \<lparr>initiative_id := ''789'',
        initiative_name := ''Late failure'',
        consultation_url := ''https://ec.europa.eu/initiatives/789/public-consultation_en'',
        scrape_status := ''error'',
        error_message := Some ''net::ERR_ABORTED''\<rparr>"



definition example_no_id :: ConsultationData where
  "example_no_id =
     (initial_data ''https://ec.europa.eu/initiatives/about_en'' ''2025-06-01T12:00:00'')
       \<lparr>consultation_url := ''https://ec.europa.eu/initiatives/about/public-consultation_en'',
        scrape_status := ''success''\<rparr>"

section \<open>Field extraction preserves identity and consistency\<close>

lemma same_identity_refl: "same_identity d d"
  by (simp add: same_identity_def)

lemma same_identity_trans: "same_identity a b \<Longrightarrow> same_identity b c \<Longrightarrow> same_identity a c"
  by (simp add: same_identity_def)

lemma topic_loop_identity:
  "topic_loop P dts data w = (r, data', w') \<Longrightarrow> same_identity data data'"
  by (induction P dts data w rule: topic_loop.induct)
     (auto simp: same_identity_def split: prod.splits sum.splits option.splits if_splits)

lemma topic_loop_artifacts:
  "topic_loop P dts data w = (r, data', w') \<Longrightarrow> artifacts_consistent data \<Longrightarrow> artifacts_consistent data'"
  by (induction P dts data w rule: topic_loop.induct)
     (auto simp: artifacts_consistent_def split: prod.splits sum.splits option.splits if_splits)

lemma extract_topic_identity:
  "extract_topic P data w = (data', w') \<Longrightarrow> same_identity data data'"
  by (auto simp: extract_topic_def same_identity_refl split: prod.splits sum.splits dest: topic_loop_identity)

lemma extract_topic_artifacts:
  "extract_topic P data w = (data', w') \<Longrightarrow> artifacts_consistent data \<Longrightarrow> artifacts_consistent data'"
  by (auto simp: extract_topic_def split: prod.splits sum.splits dest: topic_loop_artifacts)

lemma extract_period_identity:
  "extract_period P data w = (data', w') \<Longrightarrow> same_identity data data'"
  by (auto simp: extract_period_def same_identity_def split: prod.splits sum.splits option.splits)

lemma extract_period_artifacts:
  "extract_period P data w = (data', w') \<Longrightarrow> artifacts_consistent data \<Longrightarrow> artifacts_consistent data'"
  by (auto simp: extract_period_def artifacts_consistent_def split: prod.splits sum.splits option.splits)

lemma feedback_loop_identity:
  "feedback_loop P hs data w = (r, data', w') \<Longrightarrow> same_identity data data'"
  by (induction P hs data w rule: feedback_loop.induct)
     (auto simp: same_identity_def split: prod.splits sum.splits option.splits if_splits)

lemma feedback_loop_artifacts:
  "feedback_loop P hs data w = (r, data', w') \<Longrightarrow> artifacts_consistent data \<Longrightarrow> artifacts_consistent data'"
  by (induction P hs data w rule: feedback_loop.induct)
     (auto simp: artifacts_consistent_def split: prod.splits sum.splits option.splits if_splits)

lemma extract_feedback_identity:
  "extract_feedback P data w = (data', w') \<Longrightarrow> same_identity data data'"
  by (auto simp: extract_feedback_def same_identity_refl split: prod.splits sum.splits dest: feedback_loop_identity)

lemma extract_feedback_artifacts:
  "extract_feedback P data w = (data', w') \<Longrightarrow> artifacts_consistent data \<Longrightarrow> artifacts_consistent data'"
  by (auto simp: extract_feedback_def split: prod.splits sum.splits dest: feedback_loop_artifacts)

lemma classify_file_identity:
  "same_identity data (classify_file hs hc t u data)"
  by (simp add: classify_file_def same_identity_def)

lemma classify_file_artifacts:
  "artifacts_consistent data \<Longrightarrow> artifacts_consistent (classify_file hs hc t u data)"
  by (simp add: classify_file_def artifacts_consistent_def)

lemma record_file_identity:
  "same_identity data (record_file hs hc t c data)"
  by (simp add: record_file_def classify_file_identity same_identity_refl split: option.splits)

lemma record_file_artifacts:
  "artifacts_consistent data \<Longrightarrow> artifacts_consistent (record_file hs hc t c data)"
  by (simp add: record_file_def classify_file_artifacts split: option.splits)



lemma files_loop_preserves:
  assumes step: "\<And>t c d. Q d \<Longrightarrow> Q (record_file hs hc t c d)"
  shows "Q data \<Longrightarrow> files_loop P hs hc files c data w = (r, c', data', w') \<Longrightarrow> Q data'"
proof (induction files arbitrary: c data w)
  case Nil
  then show ?case by simp
next
  case (Cons file_elem rest)
  from Cons.prems(2) show ?case
    apply (simp add: Let_def split: prod.splits sum.splits option.splits)
    using Cons.IH Cons.prems(1) step
           apply blast+
    done
qed

lemma files_loop_identity:
  "files_loop P hs hc files c data w = (r, c', data', w') \<Longrightarrow> same_identity data data'"
  using files_loop_preserves[where Q = "same_identity data"]
  by (metis record_file_identity same_identity_refl same_identity_trans)

lemma files_loop_artifacts:
  "artifacts_consistent data \<Longrightarrow> files_loop P hs hc files c data w = (r, c', data', w')
    \<Longrightarrow> artifacts_consistent data'"
  by (rule files_loop_preserves[where Q = artifacts_consistent, OF record_file_artifacts])

lemma extract_outcome_identity:
  "extract_outcome P data w = (data', w') \<Longrightarrow> same_identity data data'"
  by (auto simp: extract_outcome_def same_identity_refl Let_def
           split: prod.splits sum.splits dest: files_loop_identity)

lemma extract_outcome_artifacts:
  "extract_outcome P data w = (data', w') \<Longrightarrow> artifacts_consistent data
    \<Longrightarrow> artifacts_consistent data'"
  by (auto simp: extract_outcome_def Let_def
           split: prod.splits sum.splits dest: files_loop_artifacts)


lemma extract_consultation_data_identity:
  assumes "extract_consultation_data P data w = (r, data', w')"
  shows "same_identity data data'"
proof -
  obtain d1 w1 where 1: "extract_topic P data w = (d1, w1)" by (cases "extract_topic P data w")
  obtain d2 w2 where 2: "extract_period P d1 w1 = (d2, w2)" by (cases "extract_period P d1 w1")
  obtain d3 w3 where 3: "extract_feedback P d2 w2 = (d3, w3)" by (cases "extract_feedback P d2 w2")
  obtain d4 w4 where 4: "extract_outcome P d3 w3 = (d4, w4)" by (cases "extract_outcome P d3 w3")
  from assms 1 2 3 4 have "data' = d4" by (simp add: extract_consultation_data_def)
  then show ?thesis
    using extract_topic_identity[OF 1] extract_period_identity[OF 2]
      extract_feedback_identity[OF 3] extract_outcome_identity[OF 4]
    by (blast intro: same_identity_trans)
qed

lemma extract_consultation_data_artifacts:
  assumes "extract_consultation_data P data w = (r, data', w')" and "artifacts_consistent data"
  shows "artifacts_consistent data'"
proof -
  obtain d1 w1 where 1: "extract_topic P data w = (d1, w1)" by (cases "extract_topic P data w")
  obtain d2 w2 where 2: "extract_period P d1 w1 = (d2, w2)" by (cases "extract_period P d1 w1")
  obtain d3 w3 where 3: "extract_feedback P d2 w2 = (d3, w3)" by (cases "extract_feedback P d2 w2")
  obtain d4 w4 where 4: "extract_outcome P d3 w3 = (d4, w4)" by (cases "extract_outcome P d3 w3")
  from assms 1 2 3 4 have "data' = d4" by (simp add: extract_consultation_data_def)
  then show ?thesis
    using extract_topic_artifacts[OF 1] extract_period_artifacts[OF 2]
      extract_feedback_artifacts[OF 3] extract_outcome_artifacts[OF 4] assms(2)
    by blast
qed

lemma extract_initiative_name_frame:
  "extract_initiative_name P data w = (data', w')
    \<Longrightarrow> data' = data\<lparr>initiative_name := initiative_name data'\<rparr>"
  by (auto simp: extract_initiative_name_def split: prod.splits sum.splits option.splits)

lemma construct_consultation_link_nonempty:
  "\<exists>l. construct_consultation_link url = Some l \<and> l \<noteq> []"
  by (simp add: construct_consultation_link_def Let_def)

lemma extract_consultation_data_no_raise:
  "extract_consultation_data P data w \<noteq> (Inl e, data', w')"
  by (simp add: extract_consultation_data_def split: prod.splits)

lemma from_link_raises:
  assumes "scrape_consultation_from_link P (Some l) data w = (Inl e, data', w')"
  shows "data' = data\<lparr>consultation_url := l\<rparr>"
  using assms
  by (auto simp: scrape_consultation_from_link_def Let_def extract_consultation_data_no_raise
           split: if_splits prod.splits sum.splits)

lemma from_link_returns:
  assumes "scrape_consultation_from_link P (Some l) data w = (Inr u, data', w')" and "l \<noteq> []"
  shows "\<exists>d2 w2 w3. extract_consultation_data P (data\<lparr>consultation_url := l\<rparr>) w2 = (Inr (), d2, w3)
           \<and> data' = d2\<lparr>scrape_status := ''success''\<rparr> \<and> w' = w3"
  using assms
  by (auto simp: scrape_consultation_from_link_def Let_def
           split: if_splits prod.splits sum.splits)


lemma extract_initiative_name_unpopulated:
  "extract_initiative_name P data w = (data', w') \<Longrightarrow> unpopulated data' = unpopulated data"
  by (auto simp: extract_initiative_name_def unpopulated_def
           split: prod.splits sum.splits option.splits)

lemma extract_initiative_name_artifacts:
  "extract_initiative_name P data w = (data', w')
    \<Longrightarrow> artifacts_consistent data' = artifacts_consistent data"
  by (auto simp: extract_initiative_name_def artifacts_consistent_def
           split: prod.splits sum.splits option.splits)

lemma body_cases:
  assumes "scrape_consultation_body P url data w = (r, data', w')"
  obtains
    (early) e where "r = Inl e"
      and "data' = (case re_search_initiative_id url of
                      Some g \<Rightarrow> data\<lparr>initiative_id := g\<rparr> | None \<Rightarrow> data)"
  | (late) w1 w2 data2 w3 l where "goto P url w = (Inr (), w1)"
      and "wait_for_page_load P w1 = (Inr (), w2)"
      and "extract_initiative_name P
             (case re_search_initiative_id url of
                Some g \<Rightarrow> data\<lparr>initiative_id := g\<rparr> | None \<Rightarrow> data) w2 = (data2, w3)"
      and "construct_consultation_link url = Some l" and "l \<noteq> []"
      and "scrape_consultation_from_link P (Some l) data2 w3 = (r, data', w')"
proof -
  obtain l where l: "construct_consultation_link url = Some l" "l \<noteq> []"
    using construct_consultation_link_nonempty by blast
  show thesis
    using assms l early late
    by (simp add: scrape_consultation_body_def Let_def split: prod.splits sum.splits) blast+
qed

section \<open>The extractor's body\<close>

lemma body_raises_unpopulated:
  assumes "scrape_consultation_body P url data w = (Inl e, data', w')" and "unpopulated data"
  shows "unpopulated data'"
  using assms(1)
proof (cases rule: body_cases)
  case (early e)
  with assms(2) show ?thesis by (simp add: unpopulated_def split: option.splits)
next
  case (late w1 w2 data2 w3 l)
  from extract_initiative_name_unpopulated[OF late(3)] assms(2)
  have "unpopulated data2" by (simp add: unpopulated_def split: option.splits)
  with from_link_raises[OF late(6)] show ?thesis by (simp add: unpopulated_def)
qed

lemma body_returns_success:
  assumes "scrape_consultation_body P url data w = (Inr u, data', w')"
  shows "scrape_status data' = ''success'' \<and> error_message data' = error_message data"
  using assms
proof (cases rule: body_cases)
  case (early e)
  then show ?thesis by simp
next
  case (late w1 w2 data2 w3 l)
  from extract_initiative_name_frame[OF late(3)]
  have e2: "error_message data2 = error_message data"
    by (cases "re_search_initiative_id url") (auto dest: arg_cong[where f = error_message])
  from from_link_returns[OF late(6) late(5)] obtain d2 w2' w3' where
    x: "extract_consultation_data P (data2\<lparr>consultation_url := l\<rparr>) w2' = (Inr (), d2, w3')"
    and d: "data' = d2\<lparr>scrape_status := ''success''\<rparr>" by blast
  from extract_consultation_data_identity[OF x] e2 d show ?thesis
    by (simp add: same_identity_def)
qed

lemma body_artifacts:
  assumes "scrape_consultation_body P url data w = (r, data', w')" and "artifacts_consistent data"
  shows "artifacts_consistent data'"
  using assms(1)
proof (cases rule: body_cases)
  case (early e)
  with assms(2) show ?thesis by (simp add: artifacts_consistent_def split: option.splits)
next
  case (late w1 w2 data2 w3 l)
  from extract_initiative_name_artifacts[OF late(3)] assms(2)
  have a2: "artifacts_consistent data2" by (simp add: artifacts_consistent_def split: option.splits)
  show ?thesis
  proof (cases r)
    case (Inl e)
    with late(6) have "data' = data2\<lparr>consultation_url := l\<rparr>"
      by (auto dest: from_link_raises)
    with a2 show ?thesis by (simp add: artifacts_consistent_def)
  next
    case (Inr u)
    with late(6) have "scrape_consultation_from_link P (Some l) data2 w3 = (Inr u, data', w')"
      by simp
    from from_link_returns[OF this late(5)] obtain d2 w2' w3' where
      x: "extract_consultation_data P (data2\<lparr>consultation_url := l\<rparr>) w2' = (Inr (), d2, w3')"
      and d: "data' = d2\<lparr>scrape_status := ''success''\<rparr>" by blast
    from a2 have "artifacts_consistent (data2\<lparr>consultation_url := l\<rparr>)"
      by (simp add: artifacts_consistent_def)
    from extract_consultation_data_artifacts[OF x this] d show ?thesis
      by (simp add: artifacts_consistent_def)
  qed
qed

lemma body_identity:
  assumes "scrape_consultation_body P url data w = (r, data', w')"
  shows "initiative_url data' = initiative_url data
     \<and> initiative_id data' =
         (case re_search_initiative_id url of Some g \<Rightarrow> g | None \<Rightarrow> initiative_id data)
     \<and> scrape_timestamp data' = scrape_timestamp data"
  using assms
proof (cases rule: body_cases)
  case (early e)
  then show ?thesis by (simp split: option.splits)
next
  case (late w1 w2 data2 w3 l)
  from extract_initiative_name_frame[OF late(3)]
  have i2: "initiative_url data2 = initiative_url data \<and> scrape_timestamp data2 = scrape_timestamp data
     \<and> initiative_id data2 =
         (case re_search_initiative_id url of Some g \<Rightarrow> g | None \<Rightarrow> initiative_id data)"
    by (cases "re_search_initiative_id url")
       (auto dest: arg_cong[where f = initiative_url] arg_cong[where f = initiative_id]
          arg_cong[where f = scrape_timestamp])
  show ?thesis
  proof (cases r)
    case (Inl e)
    with late(6) have "data' = data2\<lparr>consultation_url := l\<rparr>"
      by (auto dest: from_link_raises)
    with i2 show ?thesis by simp
  next
    case (Inr u)
    with late(6) have "scrape_consultation_from_link P (Some l) data2 w3 = (Inr u, data', w')"
      by simp
    from from_link_returns[OF this late(5)] obtain d2 w2' w3' where
      x: "extract_consultation_data P (data2\<lparr>consultation_url := l\<rparr>) w2' = (Inr (), d2, w3')"
      and d: "data' = d2\<lparr>scrape_status := ''success''\<rparr>" by blast
    from extract_consultation_data_identity[OF x] d i2 show ?thesis
      by (simp add: same_identity_def)
  qed
qed

lemma scrape_consultation_cases:
  assumes "scrape_consultation P url w = (r, w')"
  obtains
    (raised) e d0 where "scrape_consultation_body P url (initial_data url (now P w)) w = (Inl e, d0, w')"
      and "r = Inr (d0\<lparr>scrape_status := ''error'', error_message := Some (str_of e)\<rparr>)"
  | (completed) d0 where "scrape_consultation_body P url (initial_data url (now P w)) w = (Inr (), d0, w')"
      and "r = Inr d0"
  using assms
  by (auto simp: scrape_consultation_def Let_def split: prod.splits sum.splits)

lemma scrape_consultation_returns:
  "\<exists>d w'. scrape_consultation P url w = (Inr d, w')"
  by (simp add: scrape_consultation_def Let_def split: prod.splits sum.splits)

lemma initial_data_unpopulated: "unpopulated (initial_data url t)"
  by (simp add: unpopulated_def initial_data_def)

lemma initial_data_artifacts: "artifacts_consistent (initial_data url t)"
  by (simp add: artifacts_consistent_def initial_data_def)



section \<open>Runs on the example site\<close>


lemma run_success:
  "scrape_consultation (static_site [] example_docs)
     ''https://ec.europa.eu/initiatives/123-Test_en'' start
   = (Inr example_success,
      \<lparr>location = ''https://ec.europa.eu/initiatives/123-Test/public-consultation_en'',
       remaining = [], pending = []\<rparr>)"
  by code_simp

lemma run_error:
  "scrape_consultation (static_site [] example_docs)
     ''https://ec.europa.eu/initiatives/999_en'' start
   = (Inr example_error, start)"
  by code_simp

lemma run_late_error:
  "scrape_consultation (static_site [] example_docs)
     ''https://ec.europa.eu/initiatives/789_en'' start
   = (Inr example_late_error,
      \<lparr>location = ''https://ec.europa.eu/initiatives/789_en'', remaining = [], pending = []\<rparr>)"
  by code_simp

lemma run_no_id:
  "scrape_consultation (static_site [] example_docs)
     ''https://ec.europa.eu/initiatives/about_en'' start
   = (Inr example_no_id,
      \<lparr>location = ''https://ec.europa.eu/initiatives/about/public-consultation_en'',
       remaining = [], pending = []\<rparr>)"
  by code_simp

section \<open>Error records\<close>

text \<open>
  Claim C1. When the record returned by \<open>scrape_consultation\<close> has the status \<open>error\<close>, its
  error message is set and every descriptive and artifact field (topic, consultation
  period, total feedback, the three flags and the three URLs) has its initial value. An
  exception can only be raised before the field extraction starts, since
  \<open>extract_consultation_data\<close> catches its own; so no such field is populated when the
  failure occurs. The identity fields set before the failure (the id, the name, the
  consultation URL) stay in the record.
\<close>

theorem error_record_keeps_defaults:
  assumes "scrape_consultation P url w = (Inr d, w')" and "scrape_status d = ''error''"
  shows "error_message d \<noteq> None
    \<and> topic d = None \<and> consultation_period d = None \<and> total_feedback d = None
    \<and> \<not> has_summary_report d \<and> summary_report_url d = None
    \<and> \<not> has_contributions_zip d \<and> contributions_zip_url d = None
    \<and> \<not> has_documents_annexed d \<and> documents_annexed_url d = None"
  using assms(1)
proof (cases rule: scrape_consultation_cases)
  case (raised e d0)
  from body_raises_unpopulated[OF raised(1) initial_data_unpopulated] raised(2)
  show ?thesis by (simp add: unpopulated_def)
next
  case (completed d0)
  with body_returns_success[OF completed(1)] assms(2) show ?thesis by simp
qed

text \<open>
  Witness for C1: an initiative whose overview page loads and whose consultation page
  cannot be loaded. The id, the name and the consultation URL set before the failure are
  in the record; no other field is populated.
\<close>

theorem error_record_keeps_defaults_witness:
  "scrape_consultation (static_site [] example_docs)
     ''https://ec.europa.eu/initiatives/789_en'' start
   = (Inr example_late_error,
      \<lparr>location = ''https://ec.europa.eu/initiatives/789_en'', remaining = [], pending = []\<rparr>)
   \<and> scrape_status example_late_error = ''error''
   \<and> initiative_name example_late_error = ''Late failure''
   \<and> error_message example_late_error \<noteq> None
   \<and> topic example_late_error = None \<and> consultation_period example_late_error = None
   \<and> total_feedback example_late_error = None
   \<and> \<not> has_summary_report example_late_error \<and> summary_report_url example_late_error = None
   \<and> \<not> has_contributions_zip example_late_error
   \<and> contributions_zip_url example_late_error = None
   \<and> \<not> has_documents_annexed example_late_error
   \<and> documents_annexed_url example_late_error = None"
proof -
  have st: "scrape_status example_late_error = ''error''"
    by (simp add: example_late_error_def)
  have nm: "initiative_name example_late_error = ''Late failure''"
    by (simp add: example_late_error_def)
  from error_record_keeps_defaults[OF run_late_error st] run_late_error st nm show ?thesis
    by simp
qed




text \<open>
  Claim C3. In every record returned by \<open>scrape_consultation\<close>, for each of the three
  kinds of artifact the URL is set if and only if the flag is true.
\<close>

theorem artifact_url_iff_present:
  assumes "scrape_consultation P url w = (Inr d, w')"
  shows "(has_summary_report d \<longleftrightarrow> summary_report_url d \<noteq> None)
    \<and> (has_contributions_zip d \<longleftrightarrow> contributions_zip_url d \<noteq> None)
    \<and> (has_documents_annexed d \<longleftrightarrow> documents_annexed_url d \<noteq> None)"
proof -
  have "artifacts_consistent d"
    using assms
  proof (cases rule: scrape_consultation_cases)
    case (raised e d0)
    from body_artifacts[OF raised(1) initial_data_artifacts] raised(2)
    show ?thesis by (simp add: artifacts_consistent_def)
  next
    case (completed d0)
    from body_artifacts[OF completed(1) initial_data_artifacts] completed(2)
    show ?thesis by simp
  qed
  then show ?thesis by (simp add: artifacts_consistent_def)
qed

text \<open>Witness for C3: a consultation page offering the three kinds of file.\<close>

theorem artifact_url_iff_present_witness:
  "(has_summary_report example_success \<longleftrightarrow> summary_report_url example_success \<noteq> None)
   \<and> (has_contributions_zip example_success \<longleftrightarrow> contributions_zip_url example_success \<noteq> None)
   \<and> (has_documents_annexed example_success \<longleftrightarrow> documents_annexed_url example_success \<noteq> None)
   \<and> has_summary_report example_success \<and> has_contributions_zip example_success
   \<and> has_documents_annexed example_success"
  using artifact_url_iff_present[OF run_success]
  by (simp add: example_success_def)

section \<open>Identity of successful records\<close>

lemma startswith_split: "startswith s p \<Longrightarrow> s = p @ drop (length p) s"
  by (metis append_take_drop_id startswith_def)

lemma re_search_initiative_id_nonempty:
  "re_search_initiative_id url = Some g \<Longrightarrow> g \<noteq> []"
  by (induction url rule: re_search_initiative_id.induct) (auto split: if_splits)

lemma re_search_initiative_id_matches:
  "re_search_initiative_id url \<noteq> None
     \<longleftrightarrow> (\<exists>p c r. url = p @ ''/initiatives/'' @ c # r \<and> isdigit c)"
proof
  assume "re_search_initiative_id url \<noteq> None"
  then show "\<exists>p c r. url = p @ ''/initiatives/'' @ c # r \<and> isdigit c"
  proof (induction url rule: re_search_initiative_id.induct)
    case 1
    then show ?case by simp
  next
    case (2 x xs)
    show ?case
    proof (cases "startswith (x # xs) ''/initiatives/''
         \<and> takeWhile isdigit (drop (length ''/initiatives/'') (x # xs)) \<noteq> []")
      case True
      then obtain c r where cr: "drop (length ''/initiatives/'') (x # xs) = c # r" "isdigit c"
        by (cases "drop (length ''/initiatives/'') (x # xs)") (auto split: if_splits)
      from True startswith_split[of "x # xs" "''/initiatives/''"] cr(1)
      have "x # xs = [] @ ''/initiatives/'' @ c # r" by simp
      with cr(2) show ?thesis by blast
    next
      case False
      with 2 obtain p c r where "xs = p @ ''/initiatives/'' @ c # r" "isdigit c"
        by auto
      then have "x # xs = (x # p) @ ''/initiatives/'' @ c # r" by simp
      with \<open>isdigit c\<close> show ?thesis by blast
    qed
  qed
next
  assume "\<exists>p c r. url = p @ ''/initiatives/'' @ c # r \<and> isdigit c"
  then obtain p c r where u: "url = p @ ''/initiatives/'' @ c # r" and c: "isdigit c" by blast
  have "re_search_initiative_id (p @ ''/initiatives/'' @ c # r) \<noteq> None"
  proof (induction p)
    case Nil
    from c show ?case by (simp add: startswith_def)
  next
    case (Cons x p)
    then show ?case by simp
  qed
  with u show "re_search_initiative_id url \<noteq> None" by simp
qed

text \<open>
  Counterexample for C4: the overview URL \<open>https://ec.europa.eu/initiatives/about_en\<close> has
  no digit after \<open>/initiatives/\<close>; both of its pages load, the status is \<open>success\<close> and the
  initiative id is empty.
\<close>

theorem success_with_empty_id:
  "scrape_consultation (static_site [] example_docs)
     ''https://ec.europa.eu/initiatives/about_en'' start
   = (Inr example_no_id,
      \<lparr>location = ''https://ec.europa.eu/initiatives/about/public-consultation_en'',
       remaining = [], pending = []\<rparr>)
   \<and> scrape_status example_no_id = ''success''
   \<and> initiative_id example_no_id = []"
  using run_no_id by (simp add: example_no_id_def initial_data_def)

text \<open>
  Claim C4, amended. When the record returned for a URL has the status \<open>success\<close>, its
  \<open>initiative_url\<close> is that URL, and its \<open>initiative_id\<close> is the run of digits after the
  first \<open>/initiatives/\<close> that a digit follows: it is non-empty exactly when the URL has such
  a segment.
\<close>

theorem success_record_identity:
  assumes "scrape_consultation P url w = (Inr d, w')" and "scrape_status d = ''success''"
  shows "initiative_url d = url
    \<and> initiative_id d = (case re_search_initiative_id url of Some g \<Rightarrow> g | None \<Rightarrow> [])
    \<and> (initiative_id d \<noteq> [] \<longleftrightarrow>
         (\<exists>p c r. url = p @ ''/initiatives/'' @ c # r \<and> isdigit c))"
proof -
  from assms(1) have "initiative_url d = url
    \<and> initiative_id d = (case re_search_initiative_id url of Some g \<Rightarrow> g | None \<Rightarrow> [])"
  proof (cases rule: scrape_consultation_cases)
    case (raised e d0)
    with body_identity[OF raised(1)] show ?thesis
      by (simp add: initial_data_def split: option.splits)
  next
    case (completed d0)
    with body_identity[OF completed(1)] show ?thesis
      by (simp add: initial_data_def split: option.splits)
  qed
  moreover from this have "initiative_id d \<noteq> [] \<longleftrightarrow> re_search_initiative_id url \<noteq> None"
    by (auto split: option.splits dest: re_search_initiative_id_nonempty)
  moreover note re_search_initiative_id_matches[of url]
  ultimately show ?thesis
    by blast
qed

text \<open>Witness for C4.\<close>

theorem success_record_identity_witness:
  "scrape_status example_success = ''success''
   \<and> initiative_url example_success = ''https://ec.europa.eu/initiatives/123-Test_en''
   \<and> initiative_id example_success = ''123''
   \<and> re_search_initiative_id ''https://ec.europa.eu/initiatives/123-Test_en'' = Some ''123''"
proof -
  have st: "scrape_status example_success = ''success''"
    by (simp add: example_success_def)
  have re: "re_search_initiative_id ''https://ec.europa.eu/initiatives/123-Test_en'' = Some ''123''"
    by code_simp
  from success_record_identity[OF run_success st] st re show ?thesis
    by simp
qed

section \<open>The consultation link\<close>

text \<open>
  Claim C10. For every URL the constructed consultation link is a non-empty string, so
  the branch that reports a missing link is never taken: whenever the record has the
  status \<open>error\<close>, the \<open>try\<close> block has raised an exception of the page capability and
  the error message is the text of that exception. The message of the dead branch can
  therefore appear in a record only as the text of an exception that the page capability
  itself raises.
\<close>

theorem construction_failure_unreachable:
  "(\<exists>l. construct_consultation_link url = Some l \<and> l \<noteq> [])
   \<and> (\<forall>d w'. scrape_consultation P url w = (Inr d, w') \<and> scrape_status d = ''error'' \<longrightarrow>
         (\<exists>e d0. scrape_consultation_body P url (initial_data url (now P w)) w = (Inl e, d0, w')
                  \<and> error_message d = Some (str_of e)))
   \<and> (\<forall>d w'. scrape_consultation P url w = (Inr d, w')
              \<and> error_message d = Some ''Could not find public consultation link'' \<longrightarrow>
         (\<exists>e d0. scrape_consultation_body P url (initial_data url (now P w)) w = (Inl e, d0, w')
                  \<and> str_of e = ''Could not find public consultation link''))"
proof (intro conjI allI impI)
  show "\<exists>l. construct_consultation_link url = Some l \<and> l \<noteq> []"
    by (rule construct_consultation_link_nonempty)
next
  fix d w'
  assume a: "scrape_consultation P url w = (Inr d, w') \<and> scrape_status d = ''error''"
  then have "scrape_consultation P url w = (Inr d, w')" by simp
  then show "\<exists>e d0. scrape_consultation_body P url (initial_data url (now P w)) w = (Inl e, d0, w')
                  \<and> error_message d = Some (str_of e)"
  proof (cases rule: scrape_consultation_cases)
    case (raised e d0)
    then show ?thesis by auto
  next
    case (completed d0)
    with body_returns_success[OF completed(1)] a show ?thesis by simp
  qed
next
  fix d w'
  assume a: "scrape_consultation P url w = (Inr d, w')
              \<and> error_message d = Some ''Could not find public consultation link''"
  then have "scrape_consultation P url w = (Inr d, w')" by simp
  then show "\<exists>e d0. scrape_consultation_body P url (initial_data url (now P w)) w = (Inl e, d0, w')
                  \<and> str_of e = ''Could not find public consultation link''"
  proof (cases rule: scrape_consultation_cases)
    case (raised e d0)
    with a show ?thesis by auto
  next
    case (completed d0)
    with body_returns_success[OF completed(1)] a show ?thesis
      by (simp add: initial_data_def)
  qed
qed

text \<open>Witness for C10: the error of the example comes from the failed navigation.\<close>

theorem construction_failure_unreachable_witness:
  "scrape_consultation (static_site [] example_docs)
     ''https://ec.europa.eu/initiatives/999_en'' start = (Inr example_error, start)
   \<and> scrape_status example_error = ''error''
   \<and> (\<exists>e d0. scrape_consultation_body (static_site [] example_docs)
                 ''https://ec.europa.eu/initiatives/999_en''
                 (initial_data ''https://ec.europa.eu/initiatives/999_en''
                    (now (static_site [] example_docs) start)) start = (Inl e, d0, start)
              \<and> error_message example_error = Some (str_of e))"
proof -
  have st: "scrape_status example_error = ''error''"
    by (simp add: example_error_def)
  from construction_failure_unreachable[of "''https://ec.europa.eu/initiatives/999_en''"
      "static_site [] example_docs" start] run_error st
  show ?thesis by blast
qed

lemma dropWhile_replicate_append:
  "dropWhile (\<lambda>c. c = x) (replicate n x @ ys) = dropWhile (\<lambda>c. c = x) ys"
  by (induction n) simp_all

lemma rstrip_suffix:
  "rstrip (b @ ''_en'' @ replicate n CHR ''/'') ''/'' = b @ ''_en''"
  by (simp add: rstrip_def dropWhile_replicate_append)

text \<open>
  Counterexample for C5: on an overview URL that ends with a slash the code removes the
  slash before it looks for the locale suffix; the rule as worded finds no suffix \<open>_en\<close>
  at the end of that URL and appends to the URL as it is.
\<close>

theorem consultation_link_trailing_slash:
  "construct_consultation_link ''https://ec.europa.eu/initiatives/123-Test_en/''
     = Some ''https://ec.europa.eu/initiatives/123-Test/public-consultation_en''
   \<and> spec_consultation_link ''https://ec.europa.eu/initiatives/123-Test_en/''
     = ''https://ec.europa.eu/initiatives/123-Test_en//public-consultation_en''"
  by code_simp

text \<open>
  Claim C5, amended. The consultation link is built by the suffix substitution rule
  applied to the overview URL without its trailing slashes: trailing \<open>/\<close> characters are
  removed, then the locale suffix \<open>_en\<close> is removed if present, then
  \<open>/public-consultation\<close> and the locale suffix are appended. If the construction yields
  no link (\<open>None\<close> or the empty string), the record gets the status \<open>error\<close> and the
  message \<open>Could not find public consultation link\<close>, and no page operation follows: the
  state of the page is returned unchanged.
\<close>

theorem consultation_link_rule:
  "construct_consultation_link url = Some (spec_consultation_link (rstrip url ''/''))
   \<and> construct_consultation_link (b @ ''_en'' @ replicate n CHR ''/'')
       = Some (b @ ''/public-consultation_en'')
   \<and> (consultation_link = None \<or> consultation_link = Some [] \<longrightarrow>
        scrape_consultation_from_link P consultation_link data w
          = (Inr (),
             data\<lparr>scrape_status := ''error'',
                  error_message := Some ''Could not find public consultation link''\<rparr>,
             w))"
proof (intro conjI impI)
  show "construct_consultation_link url = Some (spec_consultation_link (rstrip url ''/''))"
    by (simp add: construct_consultation_link_def spec_consultation_link_def Let_def)
  show "construct_consultation_link (b @ ''_en'' @ replicate n CHR ''/'')
       = Some (b @ ''/public-consultation_en'')"
    by (simp only: construct_consultation_link_def Let_def rstrip_suffix)
       (simp add: endswith_def)
  assume "consultation_link = None \<or> consultation_link = Some []"
  then show "scrape_consultation_from_link P consultation_link data w
          = (Inr (),
             data\<lparr>scrape_status := ''error'',
                  error_message := Some ''Could not find public consultation link''\<rparr>,
             w)"
    by (auto simp: scrape_consultation_from_link_def)
qed

text \<open>Witness for C5.\<close>

theorem consultation_link_rule_witness:
  "construct_consultation_link ''https://ec.europa.eu/initiatives/123-Test_en///''
     = Some ''https://ec.europa.eu/initiatives/123-Test/public-consultation_en''
   \<and> scrape_consultation_from_link (static_site [] example_docs) None
        (initial_data ''https://ec.europa.eu/initiatives/123-Test_en'' ''2025-06-01T12:00:00'') start
      = (Inr (),
         (initial_data ''https://ec.europa.eu/initiatives/123-Test_en'' ''2025-06-01T12:00:00'')
           \<lparr>scrape_status := ''error'',
            error_message := Some ''Could not find public consultation link''\<rparr>,
         start)"
  using consultation_link_rule[of "''https://ec.europa.eu/initiatives/123-Test_en///''"
      "''https://ec.europa.eu/initiatives/123-Test''" 3 None "static_site [] example_docs"
      "initial_data ''https://ec.europa.eu/initiatives/123-Test_en'' ''2025-06-01T12:00:00''" start,
      THEN conjunct2]
  by (simp add: numeral_3_eq_3)

section \<open>Classification of file entries\<close>

text \<open>
  Counterexample for C6: under an observed contributions section, the title
  \<open>Documents annexed to the contributions\<close> contains \<open>contribution\<close> and \<open>annex\<close>, and
  also \<open>document\<close>: the second branch of the rule records it as the documents-annexed
  artifact.
\<close>

theorem annexed_contributions_title_recorded:
  "str_in ''contribution'' (lower ''Documents annexed to the contributions'')
   \<and> str_in ''annex'' (lower ''Documents annexed to the contributions'')
   \<and> classify_file False True (lower ''Documents annexed to the contributions'')
        ''https://ec.europa.eu/api/download/def''
        (initial_data ''https://ec.europa.eu/initiatives/123-Test_en'' ''2025-06-01T12:00:00'')
      = (initial_data ''https://ec.europa.eu/initiatives/123-Test_en'' ''2025-06-01T12:00:00'')
          \<lparr>has_documents_annexed := True,
           documents_annexed_url := Some ''https://ec.europa.eu/api/download/def''\<rparr>"
  by code_simp

text \<open>
  Claim C6, amended. The classification of a file entry follows the priority rule over
  the lower-case title and the observed sections. For a title that contains both
  \<open>contribution\<close> and \<open>annex\<close>, under an observed contributions section: the
  contributions-ZIP artifact is never recorded from it; it is recorded as the
  documents-annexed artifact when the title also contains \<open>document\<close>, otherwise as the
  summary report when a summary section was observed, and it is ignored only when neither
  holds.
\<close>

theorem classification_rule:
  "classify_file has_summary_section has_contributions_section title_lower latest_url data
     = record_artifact (spec_classify has_summary_section has_contributions_section title_lower)
         latest_url data
   \<and> (str_in ''contribution'' title_lower \<and> str_in ''annex'' title_lower \<longrightarrow>
        spec_classify has_summary_section True title_lower
          = (if str_in ''document'' title_lower then DocumentsAnnexed
             else if has_summary_section then SummaryReport
             else Ignored))"
  by (simp add: classify_file_def spec_classify_def)

text \<open>Witness for C6.\<close>

theorem classification_rule_witness:
  "str_in ''contribution'' ''annex to the contributions''
   \<and> str_in ''annex'' ''annex to the contributions''
   \<and> spec_classify True True ''annex to the contributions'' = SummaryReport
   \<and> spec_classify False True ''annex to the contributions'' = Ignored"
proof -
  have a: "str_in ''contribution'' ''annex to the contributions''" by code_simp
  have b: "str_in ''annex'' ''annex to the contributions''" by code_simp
  have c: "\<not> str_in ''document'' ''annex to the contributions''" by code_simp
  from classification_rule[of True True "''annex to the contributions''"]
       classification_rule[of False True "''annex to the contributions''"] a b c
  show ?thesis by simp
qed

section \<open>The latest captured request\<close>

lemma add_new_first_occurrences:
  "foldl (\<lambda>acc u. if u \<in> set acc then acc else acc @ [u]) acc us
     = acc @ filter (\<lambda>u. u \<notin> set acc) (first_occurrences us)"
proof (induction us arbitrary: acc)
  case Nil
  then show ?case by simp
next
  case (Cons u us)
  show ?case
  proof (cases "u \<in> set acc")
    case True
    then have "filter (\<lambda>v. v \<notin> set acc) (filter (\<lambda>y. y \<noteq> u) (first_occurrences us))
        = filter (\<lambda>v. v \<notin> set acc) (first_occurrences us)"
      by (auto intro: filter_cong)
    with True Cons.IH[of acc] show ?thesis by simp
  next
    case False
    have "filter (\<lambda>v. v \<notin> set (acc @ [u])) (first_occurrences us)
        = filter (\<lambda>v. v \<notin> set acc) (filter (\<lambda>y. y \<noteq> u) (first_occurrences us))"
      by (auto intro: filter_cong)
    with False Cons.IH[of "acc @ [u]"] show ?thesis by simp
  qed
qed

lemma set_first_occurrences: "set (first_occurrences xs) = set xs"
  by (induction xs) auto

lemma distinct_first_occurrences: "distinct (first_occurrences xs)"
  by (induction xs) (auto simp: set_first_occurrences)

lemma handle_request_key_dict:
  "handle_request (key_dict ks) url
     = key_dict (if str_in ''/api/download/'' url
                 then (if url \<in> set ks then ks else ks @ [url]) else ks)"
  by (auto simp: handle_request_def dict_set_def key_dict_def image_iff)

lemma foldl_handle_request_key_dict:
  "foldl handle_request (key_dict ks) reqs
     = key_dict (foldl (\<lambda>acc u. if u \<in> set acc then acc else acc @ [u]) ks
                   (filter (str_in ''/api/download/'') reqs))"
  by (induction reqs arbitrary: ks) (simp_all add: handle_request_key_dict)

lemma latest_captured_first_occurrences:
  "latest_captured (foldl handle_request [] reqs)
     = (if filter (str_in ''/api/download/'') reqs = [] then None
        else Some (last (first_occurrences (filter (str_in ''/api/download/'') reqs))))"
proof -
  have k: "([] :: (string, string) dict) = key_dict []" by (simp add: key_dict_def)
  have e: "\<And>xs :: string list. first_occurrences xs = [] \<longleftrightarrow> xs = []"
    by (case_tac xs) simp_all
  show ?thesis
    unfolding k foldl_handle_request_key_dict add_new_first_occurrences
    by (simp add: latest_captured_def key_dict_def dict_values_def e last_map comp_def)
qed

text \<open>
  Claim C7 says that the URL attributed to an activation is the entry most recently
  appended to the capture log. The code keeps the captured URLs as the keys of a
  dictionary and reads the last key: a URL that is requested again keeps the position of
  its first request. After the requests \<open>abc\<close>, \<open>ghi\<close>, \<open>abc\<close> the URL read is \<open>ghi\<close>,
  while the latest request is \<open>abc\<close>; on a page whose third file entry links to the
  target of the first, the contributions archive gets the URL of the summary report.
\<close>

theorem latest_after_repeated_request:
  "latest_captured
     (foldl handle_request []
        [''https://ec.europa.eu/api/download/abc'', ''https://ec.europa.eu/api/download/ghi'',
         ''https://ec.europa.eu/api/download/abc''])
     = Some ''https://ec.europa.eu/api/download/ghi''
   \<and> last [''https://ec.europa.eu/api/download/abc'', ''https://ec.europa.eu/api/download/ghi'',
         ''https://ec.europa.eu/api/download/abc''] = ''https://ec.europa.eu/api/download/abc''
   \<and> contributions_zip_url
        (projr (fst (scrape_consultation (static_site [] example_repeat_docs)
                       ''https://ec.europa.eu/initiatives/456_en'' start)))
     = Some ''https://ec.europa.eu/api/download/ghi''"
  by code_simp

section \<open>The listing walker on a static listing\<close>

lemma pending_reset: "pending w = [] \<Longrightarrow> w\<lparr>pending := []\<rparr> = w"
  by (cases w) simp

lemma site_cards_loop:
  assumes "pending w = []"
  shows "cards_loop (static_site listing docs) (map CARD cards) acc w
     = (Inr (), foldl (\<lambda>acc u. if u \<in> set acc then acc else acc @ [u]) acc
                  (map full_url_of [h. Some h \<leftarrow> cards, h \<noteq> [] ]), w)"
  using assms
proof (induction cards arbitrary: acc)
  case Nil
  then show ?case by simp
next
  case (Cons c cards)
  show ?case
  proof (cases c)
    case None
    with Cons show ?thesis
      by (simp add: static_site_def site_elem_query_selector_def pending_reset)
  next
    case (Some h)
    with Cons show ?thesis
      by (simp add: static_site_def site_elem_query_selector_def site_get_attribute_def
            pending_reset truthy_def Let_def)
  qed
qed

lemma static_site_ops:
  "launch (static_site listing docs) = (\<lambda>h s w. (Inr (), w))"
  "browser_close (static_site listing docs) = (\<lambda>w. (Inr (), w))"
  "goto (static_site listing docs) = site_goto listing docs"
  "wait_for_load_state (static_site listing docs) = (\<lambda>state w. (Inr (), w\<lparr>pending := []\<rparr>))"
  "wait_for_selector (static_site listing docs) = site_wait_for_selector"
  "query_selector (static_site listing docs) = site_query_selector docs"
  "query_selector_all (static_site listing docs) = site_query_selector_all docs"
  "get_attribute (static_site listing docs) = site_get_attribute"
  "click (static_site listing docs) = site_click"
  "sleep (static_site listing docs) = (\<lambda>w. w\<lparr>pending := []\<rparr>)"
  by (simp_all add: static_site_def)

lemma anchors_Cons:
  "anchors (p # ps) = [h. Some h \<leftarrow> p, h \<noteq> [] ] @ anchors ps"
  by (simp add: anchors_def)

lemma site_pagination_loop:
  assumes "pending w = []" and "remaining w = pages" and "pages \<noteq> []"
  shows "pagination_loop (length pages + k) (static_site listing docs) acc w
     = Some (Inr (),
             foldl (\<lambda>acc u. if u \<in> set acc then acc else acc @ [u]) acc
               (map full_url_of (anchors pages)),
             w\<lparr>remaining := [last pages]\<rparr>)"
  using assms
proof (induction pages arbitrary: acc w)
  case Nil
  then show ?case by simp
next
  case (Cons p ps)
  obtain loc where w: "w = \<lparr>location = loc, remaining = p # ps, pending = []\<rparr>"
    using Cons.prems by (cases w) simp
  let ?acc1 = "foldl (\<lambda>acc u. if u \<in> set acc then acc else acc @ [u]) acc
                 (map full_url_of [h. Some h \<leftarrow> p, h \<noteq> [] ])"
  have cards: "cards_loop (static_site listing docs) (map CARD p) acc w = (Inr (), ?acc1, w)"
    by (rule site_cards_loop) (simp add: w)
  show ?case
  proof (cases "ps = []")
    case True
    with cards show ?thesis
      by (simp add: static_site_ops site_query_selector_all_def site_query_selector_def
            anchors_Cons anchors_def w)
  next
    case False
    let ?w' = "\<lparr>location = loc, remaining = ps, pending = []\<rparr>"
    have ih: "pagination_loop (length ps + k) (static_site listing docs) ?acc1 ?w'
       = Some (Inr (),
             foldl (\<lambda>acc u. if u \<in> set acc then acc else acc @ [u]) ?acc1
               (map full_url_of (anchors ps)),
             ?w'\<lparr>remaining := [last ps]\<rparr>)"
      by (rule Cons.IH) (simp_all add: False)
    from False have len: "1 < length (p # ps)" by (cases ps) simp_all
    from cards ih len False show ?thesis
      by (simp add: static_site_ops site_query_selector_all_def site_query_selector_def
            site_get_attribute_def site_click_def wait_for_page_load_def truthy_def
            anchors_Cons w)
  qed
qed

lemma site_get_initiative_urls:
  "map_option fst (get_initiative_urls (length listing + k) (static_site listing docs) w)
     = Some (Inr (if listing = [] \<or> hd listing = [] then []
                  else first_occurrences (map full_url_of (anchors listing))))"
proof (cases "listing = [] \<or> hd listing = []")
  case True
  then show ?thesis
    by (auto simp: get_initiative_urls_def static_site_ops site_goto_def wait_for_page_load_def
          site_wait_for_selector_def)
next
  case False
  let ?w = "\<lparr>location = SEARCH_URL, remaining = listing, pending = []\<rparr>"
  have "pagination_loop (length listing + k) (static_site listing docs) [] ?w
     = Some (Inr (),
             foldl (\<lambda>acc u. if u \<in> set acc then acc else acc @ [u]) []
               (map full_url_of (anchors listing)),
             ?w\<lparr>remaining := [last listing]\<rparr>)"
    by (rule site_pagination_loop) (use False in simp_all)
  with False show ?thesis
    by (simp add: get_initiative_urls_def static_site_ops site_goto_def wait_for_page_load_def
          site_wait_for_selector_def add_new_first_occurrences)
qed

section \<open>The listing walker on any page capability\<close>

lemma cards_loop_preserves:
  assumes step: "\<forall>acc h. Q acc \<and> h \<noteq> [] \<longrightarrow>
      Q (if full_url_of h \<in> set acc then acc else acc @ [full_url_of h])"
  shows "Q acc \<Longrightarrow> cards_loop P cards acc w = (r, acc', w') \<Longrightarrow> Q acc'"
proof (induction cards arbitrary: acc w)
  case Nil
  then show ?case by simp
next
  case (Cons c cards)
  show ?case
  proof (cases "elem_query_selector P c CARD_LINK w")
    case (Pair r1 w1)
    show ?thesis
    proof (cases r1)
      case (Inl e)
      with Pair Cons.prems show ?thesis by simp
    next
      case (Inr link)
      show ?thesis
      proof (cases link)
        case None
        with Pair Inr Cons.prems Cons.IH show ?thesis by simp
      next
        case (Some link_element)
        show ?thesis
        proof (cases "get_attribute P link_element ''href'' w1")
          case (Pair r2 w2)
          note p2 = this
          show ?thesis
          proof (cases r2)
            case (Inl e)
            with p2 \<open>elem_query_selector P c CARD_LINK w = (r1, w1)\<close> Inr Some Cons.prems
            show ?thesis by simp
          next
            case (Inr href)
            note h = this
            show ?thesis
            proof (cases "truthy href")
              case False
              with p2 h \<open>elem_query_selector P c CARD_LINK w = (r1, w1)\<close> \<open>r1 = Inr link\<close> Some
                Cons.prems Cons.IH
              show ?thesis by simp
            next
              case True
              then obtain t where t: "href = Some t" "t \<noteq> []"
                by (cases href) (simp_all add: truthy_def)
              from step Cons.prems(1) t(2)
              have q: "Q (if full_url_of t \<in> set acc then acc else acc @ [full_url_of t])"
                by blast
              from True t p2 h \<open>elem_query_selector P c CARD_LINK w = (r1, w1)\<close> \<open>r1 = Inr link\<close>
                Some Cons.prems(2)
              have "cards_loop P cards
                      (if full_url_of t \<in> set acc then acc else acc @ [full_url_of t]) w2
                    = (r, acc', w')"
                by (simp add: Let_def)
              from Cons.IH[OF q this] show ?thesis .
            qed
          qed
        qed
      qed
    qed
  qed
qed

lemma pagination_loop_preserves:
  assumes step: "\<forall>acc h. Q acc \<and> h \<noteq> [] \<longrightarrow>
      Q (if full_url_of h \<in> set acc then acc else acc @ [full_url_of h])"
  shows "Q acc \<Longrightarrow> pagination_loop fuel P acc w = Some (r, acc', w') \<Longrightarrow> Q acc'"
proof (induction fuel arbitrary: acc w)
  case 0
  then show ?case by simp
next
  case (Suc fuel)
  have cards: "\<And>cards w1 r1 acc1 w2. cards_loop P cards acc w1 = (r1, acc1, w2) \<Longrightarrow> Q acc1"
    by (rule cards_loop_preserves[where Q = Q, OF step Suc.prems(1)])
  from Suc.prems(2) show ?case
    apply (simp split: prod.splits sum.splits option.splits if_splits)
    using Suc.IH cards Suc.prems(1)
             apply blast+
    done
qed

lemma normalized_urls_step:
  "\<forall>acc h. normalized_urls acc \<and> h \<noteq> [] \<longrightarrow>
     normalized_urls (if full_url_of h \<in> set acc then acc else acc @ [full_url_of h])"
  by (auto simp: normalized_urls_def)

lemma get_initiative_urls_normalized:
  assumes "get_initiative_urls fuel P w = Some (r, w')"
  shows "\<exists>urls. r = Inr urls \<and> normalized_urls urls"
proof -
  have e: "normalized_urls []" by (simp add: normalized_urls_def)
  have "\<And>r0 acc' w0 w3. pagination_loop fuel P [] w3 = Some (r0, acc', w0) \<Longrightarrow> normalized_urls acc'"
    by (rule pagination_loop_preserves[where Q = normalized_urls, OF normalized_urls_step e])
  with assms e show ?thesis
    by (auto simp: get_initiative_urls_def split: prod.splits sum.splits option.splits)
qed

lemma full_url_of_no_query: "CHR ''?'' \<notin> set (full_url_of href)"
  by (auto simp: full_url_of_def split_first_def Let_def dest: set_takeWhileD)

lemma full_url_of_root_relative:
  "startswith href ''/'' \<Longrightarrow> is_absolute_url (full_url_of href)"
  by (simp add: full_url_of_def split_first_def Let_def is_absolute_url_def startswith_def)

lemma full_url_of_prefix:
  "\<exists>rest. (if startswith href ''/'' then ''https://ec.europa.eu'' @ href else href)
             = full_url_of href @ rest \<and> (rest = [] \<or> hd rest = CHR ''?'')"
proof -
  let ?u = "if startswith href ''/'' then ''https://ec.europa.eu'' @ href else href"
  let ?rest = "dropWhile (\<lambda>c. c \<noteq> CHR ''?'') ?u"
  have "?u = full_url_of href @ ?rest"
    by (simp add: full_url_of_def split_first_def Let_def)
  moreover have "?rest = [] \<or> hd ?rest = CHR ''?''"
    using hd_dropWhile[of "\<lambda>c. c \<noteq> CHR ''?''" ?u] by blast
  ultimately show ?thesis by blast
qed

lemma example_walk:
  "get_initiative_urls 2 (static_site example_listing example_docs) start
     = Some (Inr [''https://ec.europa.eu/initiatives/123-Test_en'',
                  ''https://ec.europa.eu/initiatives/999_en''],
             \<lparr>location = SEARCH_URL,
              remaining = [ [Some ''/initiatives/999_en'', Some ''/initiatives/123-Test_en''] ],
              pending = []\<rparr>)"
  by code_simp

text \<open>
  Claim C8 says that the walker returns each anchor's URL normalized (made absolute, the
  query string stripped), without duplicates, in the order of first occurrence. The code
  means to convert a relative \<open>href\<close> to an absolute URL (the comment at line 125) and
  handles only an \<open>href\<close> that starts with \<open>/\<close>. An \<open>href\<close> relative to the current path,
  such as \<open>../initiatives/3_en\<close>, is returned as it is and is not absolute; an \<open>href\<close>
  that starts with \<open>//\<close> and names its own host gets the origin of the site in front of
  that host.
\<close>

theorem relative_href_not_made_absolute:
  "map_option fst
     (get_initiative_urls 1 (static_site [ [Some ''../initiatives/3_en''] ] example_docs) start)
     = Some (Inr [''../initiatives/3_en''])
   \<and> \<not> is_absolute_url ''../initiatives/3_en''
   \<and> full_url_of ''//example.org/initiatives/3_en''
     = ''https://ec.europa.eu//example.org/initiatives/3_en''"
  by code_simp

text \<open>
  The rest of what the claim says holds. For every sequence of listing pages and anchors
  (the first page showing at least one card), \<open>get_initiative_urls\<close> ends within one unit
  of fuel for each page and returns the \<open>href\<close>s of the anchors after \<open>full_url_of\<close>,
  without repetition, in the order of their first occurrence across the pages. What
  \<open>full_url_of\<close> returns has no \<open>?\<close> and is what precedes the first \<open>?\<close>; it is absolute
  for an \<open>href\<close> that starts with \<open>/\<close>. On every page capability, whatever fails, the
  URLs returned are pairwise different and each is \<open>full_url_of\<close> of a non-empty \<open>href\<close>.
\<close>

theorem listing_walk_result:
  "map_option fst (get_initiative_urls (length listing + k) (static_site listing docs) w)
     = Some (Inr (if listing = [] \<or> hd listing = [] then []
                  else first_occurrences (map full_url_of (anchors listing))))
   \<and> distinct (first_occurrences (map full_url_of (anchors listing)))
   \<and> set (first_occurrences (map full_url_of (anchors listing))) = full_url_of ` set (anchors listing)
   \<and> CHR ''?'' \<notin> set (full_url_of href)
   \<and> (\<exists>rest. (if startswith href ''/'' then ''https://ec.europa.eu'' @ href else href)
                = full_url_of href @ rest \<and> (rest = [] \<or> hd rest = CHR ''?''))
   \<and> (startswith href ''/'' \<longrightarrow> is_absolute_url (full_url_of href))
   \<and> (get_initiative_urls fuel P w0 = Some (r, w') \<longrightarrow>
        (\<exists>urls. r = Inr urls \<and> distinct urls
           \<and> (\<forall>u\<in>set urls. \<exists>h. h \<noteq> [] \<and> u = full_url_of h)))"
proof (intro conjI impI)
  assume "get_initiative_urls fuel P w0 = Some (r, w')"
  from get_initiative_urls_normalized[OF this]
  show "\<exists>urls. r = Inr urls \<and> distinct urls \<and> (\<forall>u\<in>set urls. \<exists>h. h \<noteq> [] \<and> u = full_url_of h)"
    by (simp add: normalized_urls_def)
qed (simp_all add: site_get_initiative_urls distinct_first_occurrences set_first_occurrences
       full_url_of_no_query full_url_of_prefix full_url_of_root_relative)

text \<open>The two pages of the example listing.\<close>

theorem listing_walk_result_witness:
  "map_option fst (get_initiative_urls 2 (static_site example_listing example_docs) start)
     = Some (Inr [''https://ec.europa.eu/initiatives/123-Test_en'',
                  ''https://ec.europa.eu/initiatives/999_en''])
   \<and> startswith ''/initiatives/123-Test_en?page=1'' ''/''
   \<and> is_absolute_url (full_url_of ''/initiatives/123-Test_en?page=1'')
   \<and> distinct [''https://ec.europa.eu/initiatives/123-Test_en'',
                ''https://ec.europa.eu/initiatives/999_en'']"
proof -
  have a: "startswith ''/initiatives/123-Test_en?page=1'' ''/''" by code_simp
  from listing_walk_result[of example_listing 0 example_docs start
      "''/initiatives/123-Test_en?page=1''" 2 "static_site example_listing example_docs" start
      "Inr [''https://ec.europa.eu/initiatives/123-Test_en'',
            ''https://ec.europa.eu/initiatives/999_en'']"
      "\<lparr>location = SEARCH_URL,
        remaining = [ [Some ''/initiatives/999_en'', Some ''/initiatives/123-Test_en''] ],
        pending = []\<rparr>"] a example_walk
  show ?thesis by simp
qed

section \<open>One record for each discovered URL\<close>

lemma scrape_consultation_url:
  assumes "scrape_consultation P url w = (Inr d, w')"
  shows "initiative_url d = url"
  using assms
proof (cases rule: scrape_consultation_cases)
  case (raised e d0)
  with body_identity[OF raised(1)] show ?thesis by (simp add: initial_data_def)
next
  case (completed d0)
  with body_identity[OF completed(1)] show ?thesis by (simp add: initial_data_def)
qed

lemma process_initiatives_results:
  "\<exists>recs w'. process_initiatives P urls self w = (Inr (), self\<lparr>results := results self @ recs\<rparr>, w')
     \<and> length recs = length urls \<and> map initiative_url recs = urls
     \<and> (\<forall>k<length urls. \<exists>wk wk'. scrape_consultation P (urls ! k) wk = (Inr (recs ! k), wk'))"
proof (induction urls arbitrary: self w)
  case Nil
  show ?case by simp
next
  case (Cons u us)
  obtain d w1 where d: "scrape_consultation P u w = (Inr d, w1)"
    using scrape_consultation_returns[of P u w] by blast
  from Cons.IH[of "self\<lparr>results := results self @ [d]\<rparr>" "sleep P w1"]
  obtain recs w' where r:
    "process_initiatives P us (self\<lparr>results := results self @ [d]\<rparr>) (sleep P w1)
       = (Inr (), self\<lparr>results := results self @ [d]\<rparr>
                    \<lparr>results := results (self\<lparr>results := results self @ [d]\<rparr>) @ recs\<rparr>, w')"
    "length recs = length us" "map initiative_url recs = us"
    "\<forall>k<length us. \<exists>wk wk'. scrape_consultation P (us ! k) wk = (Inr (recs ! k), wk')"
    by blast
  have p: "process_initiatives P (u # us) self w
          = (Inr (), self\<lparr>results := results self @ (d # recs)\<rparr>, w')"
    using d r(1) by simp
  have l: "length (d # recs) = length (u # us)" using r(2) by simp
  have m: "map initiative_url (d # recs) = u # us"
    using r(3) scrape_consultation_url[OF d] by simp
  have a: "\<forall>k<length (u # us). \<exists>wk wk'.
      scrape_consultation P ((u # us) ! k) wk = (Inr ((d # recs) ! k), wk')"
  proof (intro allI impI)
    fix k assume "k < length (u # us)"
    then show "\<exists>wk wk'. scrape_consultation P ((u # us) ! k) wk = (Inr ((d # recs) ! k), wk')"
      using d r(4) by (cases k) auto
  qed
  show ?case
    by (rule exI[of _ "d # recs"], rule exI[of _ w']) (intro conjI p l m a)
qed

text \<open>
  Claim C9. Once the browser is started and the walker has returned the list of URLs,
  the loop of \<open>scrape_all_consultations\<close> over a newly constructed scraper completes
  without an exception and leaves in \<open>results\<close> exactly one record for each URL, in the
  order of discovery: the two lists have the same length, the \<open>k\<close>-th record is a record
  returned by \<open>scrape_consultation\<close> for the \<open>k\<close>-th URL and carries that URL. The list
  is what the function returns when the browser closes without an exception.
\<close>

theorem one_record_per_url:
  assumes "launch P h s w = (Inr (), w0)"
    and "get_initiative_urls fuel P w0 = Some (Inr urls, w1)"
  shows "\<exists>recs w2.
      process_initiatives P urls (EUConsultationScraper_init h s) w1
        = (Inr (), (EUConsultationScraper_init h s)\<lparr>results := recs\<rparr>, w2)
    \<and> scrape_all_consultations fuel P (EUConsultationScraper_init h s) w
        = Some (close_and_return P ((EUConsultationScraper_init h s)\<lparr>results := recs\<rparr>) w2)
    \<and> (\<forall>w3. browser_close P w2 = (Inr (), w3) \<longrightarrow>
          scrape_all_consultations fuel P (EUConsultationScraper_init h s) w
            = Some (Inr recs, (EUConsultationScraper_init h s)\<lparr>results := recs\<rparr>, w3))
    \<and> length recs = length urls
    \<and> map initiative_url recs = urls
    \<and> (\<forall>k<length urls. \<exists>wk wk'. scrape_consultation P (urls ! k) wk = (Inr (recs ! k), wk'))"
proof -
  from process_initiatives_results[of P urls "EUConsultationScraper_init h s" w1]
  obtain recs w2 where r:
    "process_initiatives P urls (EUConsultationScraper_init h s) w1
       = (Inr (), (EUConsultationScraper_init h s)\<lparr>results := recs\<rparr>, w2)"
    "length recs = length urls" "map initiative_url recs = urls"
    "\<forall>k<length urls. \<exists>wk wk'. scrape_consultation P (urls ! k) wk = (Inr (recs ! k), wk')"
    by (auto simp: EUConsultationScraper_init_def)
  have all: "scrape_all_consultations fuel P (EUConsultationScraper_init h s) w
        = Some (close_and_return P ((EUConsultationScraper_init h s)\<lparr>results := recs\<rparr>) w2)"
    using assms r(1) by (simp add: scrape_all_consultations_def EUConsultationScraper_init_def)
  have "\<forall>w3. browser_close P w2 = (Inr (), w3) \<longrightarrow>
          scrape_all_consultations fuel P (EUConsultationScraper_init h s) w
            = Some (Inr recs, (EUConsultationScraper_init h s)\<lparr>results := recs\<rparr>, w3)"
    using all by (simp add: close_and_return_def)
  with r all show ?thesis by blast
qed

text \<open>
  Witness for C9: the example listing gives two URLs, and the run leaves two records, the
  first a success and the second an error.
\<close>

theorem one_record_per_url_witness:
  "launch (static_site example_listing example_docs) True 500 start = (Inr (), start)
   \<and> get_initiative_urls 2 (static_site example_listing example_docs) start
     = Some (Inr [''https://ec.europa.eu/initiatives/123-Test_en'',
                  ''https://ec.europa.eu/initiatives/999_en''],
             \<lparr>location = SEARCH_URL,
              remaining = [ [Some ''/initiatives/999_en'', Some ''/initiatives/123-Test_en''] ],
              pending = []\<rparr>)
   \<and> (\<exists>recs w2.
        process_initiatives (static_site example_listing example_docs)
          [''https://ec.europa.eu/initiatives/123-Test_en'',
           ''https://ec.europa.eu/initiatives/999_en'']
          (EUConsultationScraper_init True 500)
          \<lparr>location = SEARCH_URL,
           remaining = [ [Some ''/initiatives/999_en'', Some ''/initiatives/123-Test_en''] ],
           pending = []\<rparr>
          = (Inr (), (EUConsultationScraper_init True 500)\<lparr>results := recs\<rparr>, w2)
      \<and> scrape_all_consultations 2 (static_site example_listing example_docs)
          (EUConsultationScraper_init True 500) start
          = Some (close_and_return (static_site example_listing example_docs)
                    ((EUConsultationScraper_init True 500)\<lparr>results := recs\<rparr>) w2)
      \<and> (\<forall>w3. browser_close (static_site example_listing example_docs) w2 = (Inr (), w3) \<longrightarrow>
            scrape_all_consultations 2 (static_site example_listing example_docs)
              (EUConsultationScraper_init True 500) start
              = Some (Inr recs, (EUConsultationScraper_init True 500)\<lparr>results := recs\<rparr>, w3))
      \<and> length recs = length [''https://ec.europa.eu/initiatives/123-Test_en'',
                               ''https://ec.europa.eu/initiatives/999_en'']
      \<and> map initiative_url recs = [''https://ec.europa.eu/initiatives/123-Test_en'',
                                   ''https://ec.europa.eu/initiatives/999_en'']
      \<and> (\<forall>k<length [''https://ec.europa.eu/initiatives/123-Test_en'',
                      ''https://ec.europa.eu/initiatives/999_en''].
            \<exists>wk wk'. scrape_consultation (static_site example_listing example_docs)
                        ([''https://ec.europa.eu/initiatives/123-Test_en'',
                          ''https://ec.europa.eu/initiatives/999_en''] ! k) wk
                      = (Inr (recs ! k), wk')))"
proof -
  have l: "launch (static_site example_listing example_docs) True 500 start = (Inr (), start)"
    by (simp add: static_site_ops)
  show ?thesis
    by (rule conjI[OF l], rule conjI[OF example_walk], rule one_record_per_url[OF l example_walk])
qed

lemma example_run:
  "scrape_all_consultations 2 (static_site example_listing example_docs)
     (EUConsultationScraper_init True 500) start
   = Some (Inr [example_success, example_error],
           \<lparr>headless = True, slow_mo = 500, results = [example_success, example_error]\<rparr>,
           \<lparr>location = ''https://ec.europa.eu/initiatives/123-Test/public-consultation_en'',
            remaining = [], pending = []\<rparr>)"
  by code_simp

end
